theory Spec2Isabelle
  imports
    Complex_Main
    "HOL-Library.Multiset"
    "HOL-Library.Sublist"
    "HOL-Library.Char_ord"
    "HOL-Library.List_Lexorder"
    "HOL-Library.Log_Nat"
begin

section \<open>The EPL player dashboard (dashboard_epl.py)\<close>

text \<open>
  The script loads a CSV file into a pandas DataFrame, filters it by club, position and
  minutes played, and shows summary figures, a goals-per-club chart and a top-10 ranking.
  The pandas calls are modelled by what they return on the frames the script gives them.
  An \<open>int64\<close> sum wraps around, and the means and their rounding follow binary64
  arithmetic (\<open>fl\<close> below). The loader's division by 100 is exact here: its rounding to
  binary64 is left out.
\<close>

subsection \<open>Loader: \<open>load_data\<close> (lines 20-35)\<close>

text \<open>
  A column of the frame that \<open>pd.read_csv\<close> returns: its dtype is the constructor.
  A cell of an \<open>object\<close> column is a text or missing (\<open>None\<close>, pandas' NaN); a cell
  of a \<open>float64\<close> column is a number or missing.
\<close>

datatype dtype = Int64 | Float64 | BoolT | Object

datatype series =
    IntSeries "int list"
  | FloatSeries "rat option list"
  | BoolSeries "bool list"
  | ObjectSeries "string option list"

type_synonym raw_frame = "(string \<times> series) list"

text \<open>The exceptions of the script, and what \<open>pd.read_csv(file_path)\<close> does.\<close>

datatype exn =
    FileNotFoundError
  | PermissionError
  | IsADirectoryError
  | EmptyDataError
  | ParserError
  | UnicodeDecodeError
  | ValueError
  | KeyError
  | TypeError

datatype csv_read = Parsed raw_frame | Raised exn

text \<open>\<open>st.error(...)\<close>: the message shown, which names the path.\<close>

datatype ui_event = StError string

text \<open>\<open>s.str.contains('%', na=False)\<close> on one cell: a missing cell counts as False.\<close>

fun contains_percent :: "string option \<Rightarrow> bool" where
  "contains_percent None = False"
| "contains_percent (Some s) = (CHR ''%'' \<in> set s)"

text \<open>\<open>s.str.replace('%', '', regex=False)\<close> on one cell: every \<open>%\<close> goes, a missing
  cell stays missing.\<close>

fun replace_percent :: "string option \<Rightarrow> string option" where
  "replace_percent None = None"
| "replace_percent (Some s) = Some (filter (\<lambda>c. c \<noteq> CHR ''%'') s)"

text \<open>
  \<open>.astype(float)\<close> on an object column: each text goes through Python's \<open>float\<close>,
  given here as \<open>to_float\<close> (\<open>None\<close> where \<open>float\<close> raises ValueError); a missing cell
  stays missing. The first text that does not parse raises.
\<close>

fun astype_float :: "(string \<Rightarrow> rat option) \<Rightarrow> string option list \<Rightarrow> exn + rat option list" where
  "astype_float to_float [] = Inr []"
| "astype_float to_float (None # cs) =
     (case astype_float to_float cs of Inl e \<Rightarrow> Inl e | Inr vs \<Rightarrow> Inr (None # vs))"
| "astype_float to_float (Some s # cs) =
     (case to_float s of
        None \<Rightarrow> Inl ValueError
      | Some v \<Rightarrow>
          (case astype_float to_float cs of Inl e \<Rightarrow> Inl e | Inr vs \<Rightarrow> Inr (Some v # vs)))"

text \<open>
  The body of the loop (lines 30-31) for one column:
  \<^verbatim>\<open>if df[col].dtype == 'object' and df[col].str.contains('%', na=False).any():
      df[col] = df[col].str.replace('%', '', regex=False).astype(float) / 100.0\<close>
\<close>

definition convert_column :: "(string \<Rightarrow> rat option) \<Rightarrow> series \<Rightarrow> exn + series" where
  "convert_column to_float s =
     (case s of
        ObjectSeries cells \<Rightarrow>
          if list_ex contains_percent cells
          then (case astype_float to_float (map replace_percent cells) of
                  Inl e \<Rightarrow> Inl e
                | Inr vs \<Rightarrow> Inr (FloatSeries (map (map_option (\<lambda>v. v / 100)) vs)))
          else Inr s
      | _ \<Rightarrow> Inr s)"

text \<open>The loop \<open>for col in df.columns\<close>: the columns in order, stopping at the first raise.\<close>

fun convert_columns :: "(string \<Rightarrow> rat option) \<Rightarrow> raw_frame \<Rightarrow> exn + raw_frame" where
  "convert_columns to_float [] = Inr []"
| "convert_columns to_float ((name, s) # cols) =
     (case convert_column to_float s of
        Inl e \<Rightarrow> Inl e
      | Inr s' \<Rightarrow>
          (case convert_columns to_float cols of
             Inl e \<Rightarrow> Inl e
           | Inr cols' \<Rightarrow> Inr ((name, s') # cols')))"

text \<open>The body of the \<open>try\<close> (lines 27-32).\<close>

definition load_body :: "(string \<Rightarrow> rat option) \<Rightarrow> (string \<Rightarrow> csv_read) \<Rightarrow> string \<Rightarrow> exn + raw_frame" where
  "load_body to_float read_csv file_path =
     (case read_csv file_path of
        Raised e \<Rightarrow> Inl e
      | Parsed frame \<Rightarrow> convert_columns to_float frame)"

text \<open>
  \<open>load_data\<close>: \<open>except FileNotFoundError\<close> shows the message and returns \<open>None\<close>; any
  other exception leaves the function (\<open>Inl\<close>). The result carries what was shown.
\<close>

definition load_data ::
  "(string \<Rightarrow> rat option) \<Rightarrow> (string \<Rightarrow> csv_read) \<Rightarrow> string \<Rightarrow> exn + (raw_frame option \<times> ui_event list)" where
  "load_data to_float read_csv file_path =
     (case load_body to_float read_csv file_path of
        Inl FileNotFoundError \<Rightarrow> Inr (None, [StError file_path])
      | Inl e \<Rightarrow> Inl e
      | Inr frame \<Rightarrow> Inr (Some frame, []))"

text \<open>
  Lines 38-41: the script loads \<open>'epl_player_stats_24_25.csv'\<close> and calls \<open>st.stop()\<close>
  when the result is \<open>None\<close>. An exception that left \<open>load_data\<close> ends the run uncaught.
\<close>

datatype startup = Stopped "ui_event list" | Uncaught exn | Loaded raw_frame

definition startup :: "(string \<Rightarrow> rat option) \<Rightarrow> (string \<Rightarrow> csv_read) \<Rightarrow> startup" where
  "startup to_float read_csv =
     (case load_data to_float read_csv ''epl_player_stats_24_25.csv'' of
        Inl e \<Rightarrow> Uncaught e
      | Inr (None, shown) \<Rightarrow> Stopped shown
      | Inr (Some frame, shown) \<Rightarrow> Loaded frame)"

text \<open>
  Python's \<open>float\<close> on plain decimal notation: an optional sign, digits, an optional point
  and more digits, with a digit on one side of the point at least. The other forms
  \<open>float\<close> reads (exponents, \<open>inf\<close>, \<open>nan\<close>, blanks around the number, underscores) are
  not covered: the examples below do not use them.
\<close>

definition is_digit :: "char \<Rightarrow> bool" where
  "is_digit c = (48 \<le> (of_char c :: nat) \<and> (of_char c :: nat) \<le> 57)"

fun digits_value :: "nat \<Rightarrow> string \<Rightarrow> nat" where
  "digits_value acc [] = acc"
| "digits_value acc (c # cs) = digits_value (10 * acc + (of_char c - 48)) cs"

definition unsigned_decimal :: "string \<Rightarrow> rat option" where
  "unsigned_decimal s =
     (let ip = takeWhile (\<lambda>c. c \<noteq> CHR ''.'') s;
          rest = dropWhile (\<lambda>c. c \<noteq> CHR ''.'') s;
          fp = (if rest = [] then [] else tl rest)
      in if list_all is_digit ip \<and> list_all is_digit fp \<and> (ip \<noteq> [] \<or> fp \<noteq> [])
         then Some (of_nat (digits_value 0 ip) + of_nat (digits_value 0 fp) / 10 ^ length fp)
         else None)"

definition py_float :: "string \<Rightarrow> rat option" where
  "py_float s =
     (case s of
        [] \<Rightarrow> None
      | c # cs \<Rightarrow>
          if c = CHR ''-'' then map_option uminus (unsigned_decimal cs)
          else if c = CHR ''+'' then unsigned_decimal cs
          else unsigned_decimal s)"

text \<open>
  The spec's words "the path does not resolve to a readable file": reading raised because
  the file is missing, may not be read, or is a directory.
\<close>

definition resolves_to_readable_file :: "csv_read \<Rightarrow> bool" where
  "resolves_to_readable_file r =
     (case r of
        Raised FileNotFoundError \<Rightarrow> False
      | Raised PermissionError \<Rightarrow> False
      | Raised IsADirectoryError \<Rightarrow> False
      | _ \<Rightarrow> True)"

text \<open>A text cell that \<open>.astype(float)\<close> accepts.\<close>

fun cell_parses :: "(string \<Rightarrow> rat option) \<Rightarrow> string option \<Rightarrow> bool" where
  "cell_parses to_float None = True"
| "cell_parses to_float (Some s) = (to_float s \<noteq> None)"

subsection \<open>The table the script works on\<close>

text \<open>
  A row of the loaded table: the columns the script names, typed as the dataset has them
  (club and position are texts, the counting statistics are integers), and the other
  numeric columns by name in \<open>stat\<close>. No cell of a row is missing: a table with NaN in
  a column the script reads is outside the model. A frame is its column labels with their
  dtypes, and its rows in order.
\<close>

record player =
  player_name :: string
  club :: string
  position :: string
  minutes :: int
  goals :: int
  assists :: int
  stat :: "string \<Rightarrow> rat"

record dataframe =
  columns :: "(string \<times> dtype) list"
  rows :: "player list"

text \<open>\<open>frame[name]\<close> for a numeric column, one row at a time.\<close>

definition column :: "string \<Rightarrow> player \<Rightarrow> rat" where
  "column name r =
     (if name = ''Minutes'' then of_int (minutes r)
      else if name = ''Goals'' then of_int (goals r)
      else if name = ''Assists'' then of_int (assists r)
      else stat r name)"

text \<open>\<open>frame.empty\<close>: one of the two axes has length 0.\<close>

definition df_empty :: "dataframe \<Rightarrow> bool" where
  "df_empty d = (rows d = [] \<or> columns d = [])"

text \<open>\<open>frame[mask]\<close>: a new frame of the rows where the mask holds, in order, with the
  same columns.\<close>

definition mask_rows :: "(player \<Rightarrow> bool) \<Rightarrow> dataframe \<Rightarrow> dataframe" where
  "mask_rows keep d = d\<lparr>rows := filter keep (rows d)\<rparr>"

text \<open>\<open>pd.DataFrame(columns=cols)\<close>: no rows, the same labels, each column of dtype
  object.\<close>

definition empty_frame :: "(string \<times> dtype) list \<Rightarrow> dataframe" where
  "empty_frame cols = \<lparr>columns = map (\<lambda>(name, _). (name, Object)) cols, rows = []\<rparr>"

subsection \<open>Filter: lines 79-97\<close>

text \<open>What the sidebar widgets return (lines 50-67).\<close>

record criteria =
  selected_clubs :: "string list"
  selected_position :: string
  selected_minutes_range :: "int \<times> int"

text \<open>
  The script's variables hold references: \<open>heap\<close> lists the frames created so far, and
  \<open>df\<close> and \<open>filtered_df\<close> are the addresses the two names are bound to. Every
  statement of the filter creates a frame and rebinds \<open>filtered_df\<close>; none writes into
  a frame that exists.
\<close>

record py_state =
  heap :: "dataframe list"
  df :: nat
  filtered_df :: nat

definition bind_filtered_df :: "dataframe \<Rightarrow> py_state \<Rightarrow> py_state" where
  "bind_filtered_df d s = s\<lparr>heap := heap s @ [d], filtered_df := length (heap s)\<rparr>"

text \<open>Line 79: \<open>filtered_df = df.copy()\<close>.\<close>

definition stmt_copy :: "py_state \<Rightarrow> py_state" where
  "stmt_copy s = bind_filtered_df (heap s ! df s) s"

text \<open>Lines 82-86: the rows of the selected clubs, or an empty frame when the
  selection is empty.\<close>

definition stmt_club :: "string list \<Rightarrow> py_state \<Rightarrow> py_state" where
  "stmt_club clubs s =
     (if clubs \<noteq> []
      then bind_filtered_df (mask_rows (\<lambda>r. club r \<in> set clubs) (heap s ! filtered_df s)) s
      else bind_filtered_df (empty_frame (columns (heap s ! df s))) s)"

text \<open>Lines 89-90.\<close>

definition stmt_position :: "string \<Rightarrow> py_state \<Rightarrow> py_state" where
  "stmt_position pos s =
     (if pos \<noteq> ''All''
      then bind_filtered_df (mask_rows (\<lambda>r. position r = pos) (heap s ! filtered_df s)) s
      else s)"

text \<open>Lines 94-97, the mask on the minutes, and lines 93-97 with the guard.\<close>

definition minutes_mask :: "int \<times> int \<Rightarrow> py_state \<Rightarrow> py_state" where
  "minutes_mask bounds s =
     bind_filtered_df
       (mask_rows (\<lambda>r. fst bounds \<le> minutes r \<and> minutes r \<le> snd bounds) (heap s ! filtered_df s)) s"

definition stmt_minutes :: "int \<times> int \<Rightarrow> py_state \<Rightarrow> py_state" where
  "stmt_minutes bounds s =
     (if \<not> df_empty (heap s ! filtered_df s) then minutes_mask bounds s else s)"

definition filter_block :: "criteria \<Rightarrow> py_state \<Rightarrow> py_state" where
  "filter_block c s =
     stmt_minutes (selected_minutes_range c)
       (stmt_position (selected_position c)
          (stmt_club (selected_clubs c) (stmt_copy s)))"

text \<open>The filter on a table: the block run with \<open>df\<close> bound to the table, and the frame
  \<open>filtered_df\<close> is bound to at the end.\<close>

definition apply_filter :: "dataframe \<Rightarrow> criteria \<Rightarrow> dataframe" where
  "apply_filter table c =
     (let s = filter_block c \<lparr>heap = [table], df = 0, filtered_df = 0\<rparr>
      in heap s ! filtered_df s)"

text \<open>The same pipeline with the minutes mask applied without the guard of line 93.\<close>

definition filter_block_unguarded :: "criteria \<Rightarrow> py_state \<Rightarrow> py_state" where
  "filter_block_unguarded c s =
     minutes_mask (selected_minutes_range c)
       (stmt_position (selected_position c)
          (stmt_club (selected_clubs c) (stmt_copy s)))"

definition apply_filter_unguarded :: "dataframe \<Rightarrow> criteria \<Rightarrow> dataframe" where
  "apply_filter_unguarded table c =
     (let s = filter_block_unguarded c \<lparr>heap = [table], df = 0, filtered_df = 0\<rparr>
      in heap s ! filtered_df s)"

text \<open>The three predicates of the filter, as one test on a row.\<close>

definition selected :: "criteria \<Rightarrow> player \<Rightarrow> bool" where
  "selected c r =
     (club r \<in> set (selected_clubs c)
      \<and> (selected_position c = ''All'' \<or> position r = selected_position c)
      \<and> fst (selected_minutes_range c) \<le> minutes r
      \<and> minutes r \<le> snd (selected_minutes_range c))"

subsection \<open>Machine numbers\<close>

text \<open>A sum of \<open>int64\<close> values wraps around modulo \<open>2 ^ 64\<close>.\<close>

definition wrap_int64 :: "int \<Rightarrow> int" where
  "wrap_int64 x = (x + 2 ^ 63) mod 2 ^ 64 - 2 ^ 63"

text \<open>
  Rounding to the nearest integer, a tie going to the even one (numpy's \<open>rint\<close>, and the
  rounding of every binary64 operation).
\<close>

definition round_half_even :: "rat \<Rightarrow> int" where
  "round_half_even x =
     (let f = \<lfloor>x\<rfloor>; d = x - of_int f
      in if d < 1 / 2 then f
         else if 1 / 2 < d then f + 1
         else if even f then f else f + 1)"

text \<open>
  A binary64 number is \<open>m * 2 ^ e\<close> with a significand \<open>m\<close> of 53 bits. \<open>float_exp x\<close>
  is the exponent \<open>e\<close> with \<open>2 ^ e \<le> \<bar>x\<bar> < 2 ^ (e + 1)\<close>, and \<open>fl x\<close> is the binary64
  number nearest to \<open>x\<close>, a tie going to the even significand: the result of an
  arithmetic operation whose exact value is \<open>x\<close>. The exponent is not bounded here:
  overflow to infinity and subnormal numbers are left out.
\<close>

definition float_exp :: "rat \<Rightarrow> int" where
  "float_exp x =
     (let (p, q) = quotient_of x; d = bitlen \<bar>p\<bar> - bitlen q
      in if 2 powi d \<le> \<bar>x\<bar> then d else d - 1)"

definition fl :: "rat \<Rightarrow> rat" where
  "fl x =
     (if x = 0 then 0
      else let u = 2 powi (float_exp x - 52)
           in of_int (round_half_even (x / u)) * u)"

subsection \<open>Summary figures: lines 102-117\<close>

text \<open>
  \<open>Series.sum()\<close> on an \<open>int64\<close> column is an \<open>int64\<close> sum. \<open>Series.mean()\<close> adds
  the values as binary64 numbers and divides by their count; the mean of a column without
  rows is NaN (\<open>None\<close>), not an exception. The additions are made here from the first
  value to the last; numpy may add in another order, which gives the same sum whenever the
  absolute values add up to less than \<open>2 ^ 53\<close>, since every addition is then exact.
  The count is exact (a column has fewer than \<open>2 ^ 53\<close> rows).
\<close>

definition series_sum :: "int list \<Rightarrow> int" where
  "series_sum xs = wrap_int64 (sum_list xs)"

definition float_sum :: "int list \<Rightarrow> rat" where
  "float_sum xs = foldl (\<lambda>acc x. fl (acc + fl (of_int x))) 0 xs"

definition series_mean :: "int list \<Rightarrow> rat option" where
  "series_mean xs =
     (if xs = [] then None else Some (fl (float_sum xs / of_nat (length xs))))"

text \<open>
  \<open>round(x, ndigits)\<close> on a numpy float: \<open>rint(x)\<close> when \<open>ndigits\<close> is 0, and
  otherwise \<open>x\<close> times \<open>10 ^ ndigits\<close>, \<open>rint\<close> of the product, and the quotient by
  \<open>10 ^ ndigits\<close>, each a binary64 operation. NaN stays NaN.
\<close>

definition np_round :: "rat \<Rightarrow> nat \<Rightarrow> rat" where
  "np_round x ndigits =
     (if ndigits = 0 then of_int (round_half_even x)
      else fl (of_int (round_half_even (fl (x * 10 ^ ndigits))) / 10 ^ ndigits))"

definition py_round :: "rat option \<Rightarrow> nat \<Rightarrow> rat option" where
  "py_round x ndigits = map_option (\<lambda>v. np_round v ndigits) x"

text \<open>\<open>int(x)\<close> on a float: towards zero, and ValueError on NaN.\<close>

definition py_int :: "rat option \<Rightarrow> exn + int" where
  "py_int x =
     (case x of
        None \<Rightarrow> Inl ValueError
      | Some v \<Rightarrow> Inr (if 0 \<le> v then \<lfloor>v\<rfloor> else \<lceil>v\<rceil>))"

record kpi =
  total_players :: int
  total_goals :: int
  avg_assists :: "rat option"
  avg_minutes :: "rat option"

text \<open>Lines 102-111.\<close>

definition kpi_block :: "dataframe \<Rightarrow> kpi" where
  "kpi_block fd =
     (if \<not> df_empty fd
      then \<lparr>total_players = int (length (rows fd)),
            total_goals = series_sum (map goals (rows fd)),
            avg_assists = py_round (series_mean (map assists (rows fd))) 2,
            avg_minutes = py_round (series_mean (map minutes (rows fd))) 0\<rparr>
      else \<lparr>total_players = 0, total_goals = 0, avg_assists = Some 0, avg_minutes = Some 0\<rparr>)"

text \<open>Line 117 shows \<open>int(avg_minutes)\<close>.\<close>

definition shown_avg_minutes :: "kpi \<Rightarrow> exn + int" where
  "shown_avg_minutes k = py_int (avg_minutes k)"

text \<open>The arithmetic mean of a list of integers that is not empty.\<close>

definition arithmetic_mean :: "int list \<Rightarrow> rat" where
  "arithmetic_mean xs = of_int (sum_list xs) / of_nat (length xs)"

subsection \<open>Sorting, grouping and ranking: lines 135 and 162-176\<close>

text \<open>
  \<open>sort_values\<close> sorts with numpy's sort of kind \<open>quicksort\<close>, the default: the keys
  come out ascending, and rows with equal keys in an order that numpy does not promise.
  That order is a parameter here: \<open>tie\<close> ranks the positions of the column, rows with
  equal keys come out by ascending rank, and rows with equal key and rank in their
  original order. A constant \<open>tie\<close> is a stable sort. What is proved of a sort is proved
  for every \<open>tie\<close>.
\<close>

definition unstable_sort :: "(nat \<Rightarrow> nat) \<Rightarrow> ('r \<Rightarrow> 'v::linorder) \<Rightarrow> 'r list \<Rightarrow> 'r list" where
  "unstable_sort tie f rs =
     map snd (sort_key (\<lambda>p. f (snd p)) (sort_key (\<lambda>p. tie (fst p)) (enumerate 0 rs)))"

text \<open>\<open>sort_values(ascending=True)\<close>, and \<open>sort_values(ascending=False)\<close>: pandas
  reverses the column, sorts it ascending and reverses the result.\<close>

definition sort_values_asc :: "(nat \<Rightarrow> nat) \<Rightarrow> ('r \<Rightarrow> 'v::linorder) \<Rightarrow> 'r list \<Rightarrow> 'r list" where
  "sort_values_asc tie f rs = unstable_sort tie f rs"

definition sort_values_desc :: "(nat \<Rightarrow> nat) \<Rightarrow> ('r \<Rightarrow> 'v::linorder) \<Rightarrow> 'r list \<Rightarrow> 'r list" where
  "sort_values_desc tie f rs = rev (unstable_sort tie f (rev rs))"

text \<open>Descending order by a stable sort (\<open>kind='mergesort'\<close>): rows with equal keys
  stay in their original order.\<close>

definition mergesort_desc :: "('r \<Rightarrow> 'v::linorder) \<Rightarrow> 'r list \<Rightarrow> 'r list" where
  "mergesort_desc f rs = rev (sort_key f (rev rs))"

text \<open>
  \<open>frame.groupby(key)[val].sum()\<close>: one entry per key that occurs, the keys in ascending
  order (\<open>sort=True\<close> is the default of \<open>groupby\<close>), each with the \<open>int64\<close> sum over
  its rows.
\<close>

definition groupby_sum :: "('r \<Rightarrow> 'k::linorder) \<Rightarrow> ('r \<Rightarrow> int) \<Rightarrow> 'r list \<Rightarrow> ('k \<times> int) list" where
  "groupby_sum key val rs =
     map (\<lambda>k. (k, series_sum (map val (filter (\<lambda>r. key r = k) rs))))
       (sort (remdups (map key rs)))"

text \<open>Line 135.\<close>

definition goals_by_club :: "(nat \<Rightarrow> nat) \<Rightarrow> dataframe \<Rightarrow> (string \<times> int) list" where
  "goals_by_club tie fd = sort_values_desc tie snd (groupby_sum club goals (rows fd))"

text \<open>
  The spec's \<open>groupSum\<close>, from its words: the groups in the order their keys are first
  met, each with the sum over its rows, sorted by sum descending with a stable sort.
\<close>

definition first_seen :: "'k list \<Rightarrow> 'k list" where
  "first_seen ks = rev (remdups (rev ks))"

definition groupSum_spec :: "('r \<Rightarrow> 'k) \<Rightarrow> ('r \<Rightarrow> int) \<Rightarrow> 'r list \<Rightarrow> ('k \<times> int) list" where
  "groupSum_spec key val rs =
     mergesort_desc snd
       (map (\<lambda>k. (k, sum_list (map val (filter (\<lambda>r. key r = k) rs))))
          (first_seen (map key rs)))"

text \<open>Lines 162-165. \<open>select_dtypes(include=np.number)\<close> keeps the integer and float
  columns; \<open>sub in col\<close> holds when \<open>sub\<close> occurs in \<open>col\<close> as a run of characters.\<close>

definition is_number :: "dtype \<Rightarrow> bool" where
  "is_number t = (t = Int64 \<or> t = Float64)"

definition numeric_cols :: "dataframe \<Rightarrow> string list" where
  "numeric_cols d = map fst (filter (\<lambda>(name, t). is_number t) (columns d))"

definition metrics_to_exclude :: "string list" where
  "metrics_to_exclude =
     [''Big Chances Missed'', ''Hit Woodwork'', ''Offsides'', ''Goals Conceded'',
      ''Own Goals'', ''Yellow Cards'', ''Red Cards'', ''Penalties Saved'']"

fun str_in :: "string \<Rightarrow> string \<Rightarrow> bool" where
  "str_in sub [] = (sub = [])"
| "str_in sub (c # cs) = (prefix sub (c # cs) \<or> str_in sub cs)"

definition metrics_to_rank :: "dataframe \<Rightarrow> string list" where
  "metrics_to_rank d =
     filter (\<lambda>col. col \<notin> set metrics_to_exclude
                    \<and> \<not> str_in ''Ended'' col \<and> \<not> str_in ''xGoT'' col)
       (numeric_cols d)"

text \<open>
  \<open>nlargest(n, col)\<close> with the default \<open>keep='first'\<close>: no row when \<open>n\<close> is not
  positive; when the column has at most \<open>n\<close> rows, \<open>sort_values(ascending=False)\<close> and
  its first \<open>n\<close> rows, that is all of them; otherwise the first \<open>n\<close> rows of the
  descending order that a stable sort gives, so that of the rows with the value at the
  cut the earliest are taken.
\<close>

definition nlargest :: "(nat \<Rightarrow> nat) \<Rightarrow> int \<Rightarrow> ('r \<Rightarrow> 'v::linorder) \<Rightarrow> 'r list \<Rightarrow> 'r list" where
  "nlargest tie n f rs =
     (if n \<le> 0 then []
      else if int (length rs) \<le> n then take (nat n) (sort_values_desc tie f rs)
      else take (nat n) (mergesort_desc f rs))"

text \<open>Lines 174-176 for any \<open>n\<close>: \<open>frame.nlargest(n, metric)\<close>, then
  \<open>.sort_values(metric, ascending=True)\<close> for the chart, each sort with its own order of
  ties. The script takes \<open>n = 10\<close>.\<close>

definition top_n_players :: "(nat \<Rightarrow> nat) \<Rightarrow> int \<Rightarrow> string \<Rightarrow> dataframe \<Rightarrow> dataframe" where
  "top_n_players tie n metric fd = fd\<lparr>rows := nlargest tie n (column metric) (rows fd)\<rparr>"

definition df_sort_values :: "(nat \<Rightarrow> nat) \<Rightarrow> string \<Rightarrow> dataframe \<Rightarrow> dataframe" where
  "df_sort_values tie metric fd = fd\<lparr>rows := sort_values_asc tie (column metric) (rows fd)\<rparr>"

definition ranking_chart ::
  "(nat \<Rightarrow> nat) \<Rightarrow> (nat \<Rightarrow> nat) \<Rightarrow> int \<Rightarrow> string \<Rightarrow> dataframe \<Rightarrow> dataframe" where
  "ranking_chart tie1 tie2 n metric fd =
     df_sort_values tie2 metric (top_n_players tie1 n metric fd)"

definition top_10_players :: "(nat \<Rightarrow> nat) \<Rightarrow> string \<Rightarrow> dataframe \<Rightarrow> dataframe" where
  "top_10_players tie metric fd = top_n_players tie 10 metric fd"

definition fig_bar_top :: "(nat \<Rightarrow> nat) \<Rightarrow> (nat \<Rightarrow> nat) \<Rightarrow> string \<Rightarrow> dataframe \<Rightarrow> dataframe" where
  "fig_bar_top tie1 tie2 metric fd = df_sort_values tie2 metric (top_10_players tie1 metric fd)"

subsection \<open>The filter read as a function of the table\<close>

text \<open>The frame \<open>filtered_df\<close> names after lines 82-86, after lines 89-90, and the rows
  the minutes mask keeps.\<close>

definition club_frame :: "dataframe \<Rightarrow> criteria \<Rightarrow> dataframe" where
  "club_frame table c =
     (if selected_clubs c \<noteq> [] then mask_rows (\<lambda>r. club r \<in> set (selected_clubs c)) table
      else empty_frame (columns table))"

definition position_frame :: "dataframe \<Rightarrow> criteria \<Rightarrow> dataframe" where
  "position_frame table c =
     (if selected_position c \<noteq> ''All''
      then mask_rows (\<lambda>r. position r = selected_position c) (club_frame table c)
      else club_frame table c)"

definition minutes_rows :: "criteria \<Rightarrow> dataframe \<Rightarrow> dataframe" where
  "minutes_rows c d =
     mask_rows (\<lambda>r. fst (selected_minutes_range c) \<le> minutes r
                   \<and> minutes r \<le> snd (selected_minutes_range c)) d"

definition filter_result :: "dataframe \<Rightarrow> criteria \<Rightarrow> dataframe" where
  "filter_result table c =
     (if df_empty (position_frame table c) then position_frame table c
      else minutes_rows c (position_frame table c))"

subsection \<open>The table of the spec's end-to-end scenario\<close>

text \<open>Three rows: (ClubA, FW, 900 minutes, 10 goals), (ClubA, MF, 100 minutes, 1 goal),
  (ClubB, FW, 500 minutes, 5 goals).\<close>

definition row1 :: player where
  "row1 = \<lparr>player_name = ''P1'', club = ''ClubA'', position = ''FW'', minutes = 900,
           goals = 10, assists = 3, stat = (\<lambda>_. 0)\<rparr>"

definition row2 :: player where
  "row2 = \<lparr>player_name = ''P2'', club = ''ClubA'', position = ''MF'', minutes = 100,
           goals = 1, assists = 0, stat = (\<lambda>_. 0)\<rparr>"

definition row3 :: player where
  "row3 = \<lparr>player_name = ''P3'', club = ''ClubB'', position = ''FW'', minutes = 500,
           goals = 5, assists = 4, stat = (\<lambda>_. 0)\<rparr>"

definition scenario_columns :: "(string \<times> dtype) list" where
  "scenario_columns =
     [(''Player Name'', Object), (''Club'', Object), (''Position'', Object),
      (''Minutes'', Int64), (''Goals'', Int64), (''Assists'', Int64),
      (''Red Cards'', Int64), (''Carries Ended with Goal'', Int64), (''xGoT'', Float64),
      (''Passes%'', Float64)]"

definition scenario_table :: dataframe where
  "scenario_table = \<lparr>columns = scenario_columns, rows = [row1, row2, row3]\<rparr>"

definition scenario_criteria :: criteria where
  "scenario_criteria =
     \<lparr>selected_clubs = [''ClubA''], selected_position = ''FW'',
      selected_minutes_range = (0, 1000)\<rparr>"

definition no_clubs :: criteria where
  "no_clubs =
     \<lparr>selected_clubs = [], selected_position = ''FW'', selected_minutes_range = (0, 1000)\<rparr>"

text \<open>A fourth row, with as many goals as \<open>row3\<close>.\<close>

definition row4 :: player where
  "row4 = \<lparr>player_name = ''P4'', club = ''ClubA'', position = ''MF'', minutes = 300,
           goals = 5, assists = 1, stat = (\<lambda>_. 0)\<rparr>"

text \<open>A fifth row, of a third club, with the same number of goals again.\<close>

definition row5 :: player where
  "row5 = \<lparr>player_name = ''P5'', club = ''ClubC'', position = ''FW'', minutes = 700,
           goals = 5, assists = 2, stat = (\<lambda>_. 0)\<rparr>"


subsection \<open>A frame as \<open>pd.read_csv\<close> returns it\<close>

text \<open>A text column, a column that mixes a percentage with a plain number and a missing
  cell, and an integer column.\<close>

definition percent_frame :: raw_frame where
  "percent_frame =
     [(''Club'', ObjectSeries [Some ''Arsenal'', None, Some ''Chelsea'']),
      (''Passes%'', ObjectSeries [Some ''42.5%'', Some ''25'', None]),
      (''Goals'', IntSeries [1, 2, 3])]"


subsection \<open>Rounded to a number of decimal places\<close>



subsection \<open>The stages after the loader, with the exceptions they can raise\<close>

text \<open>
  \<open>frame[name]\<close> raises KeyError when the frame has no column of that name. The filter,
  read statement by statement as in lines 82-97: each statement reads its column only when
  it runs.
\<close>

definition has_column :: "string \<Rightarrow> dataframe \<Rightarrow> bool" where
  "has_column name d = (name \<in> set (map fst (columns d)))"

definition club_stage :: "dataframe \<Rightarrow> criteria \<Rightarrow> exn + dataframe" where
  "club_stage table c =
     (if selected_clubs c \<noteq> []
      then (if has_column ''Club'' table
            then Inr (mask_rows (\<lambda>r. club r \<in> set (selected_clubs c)) table)
            else Inl KeyError)
      else Inr (empty_frame (columns table)))"

definition position_stage :: "criteria \<Rightarrow> dataframe \<Rightarrow> exn + dataframe" where
  "position_stage c fd =
     (if selected_position c \<noteq> ''All''
      then (if has_column ''Position'' fd
            then Inr (mask_rows (\<lambda>r. position r = selected_position c) fd)
            else Inl KeyError)
      else Inr fd)"

definition minutes_stage :: "criteria \<Rightarrow> dataframe \<Rightarrow> exn + dataframe" where
  "minutes_stage c fd =
     (if \<not> df_empty fd
      then (if has_column ''Minutes'' fd then Inr (minutes_rows c fd) else Inl KeyError)
      else Inr fd)"

definition filter_stage :: "dataframe \<Rightarrow> criteria \<Rightarrow> exn + dataframe" where
  "filter_stage table c =
     (case club_stage table c of
        Inl e \<Rightarrow> Inl e
      | Inr a \<Rightarrow>
          (case position_stage c a of
             Inl e \<Rightarrow> Inl e
           | Inr b \<Rightarrow> minutes_stage c b))"

text \<open>Lines 102-111: the figures read the Goals, Assists and Minutes columns when the
  frame is not empty.\<close>

definition kpi_stage :: "dataframe \<Rightarrow> exn + kpi" where
  "kpi_stage fd =
     (if \<not> df_empty fd
      then (if has_column ''Goals'' fd \<and> has_column ''Assists'' fd \<and> has_column ''Minutes'' fd
            then Inr (kpi_block fd)
            else Inl KeyError)
      else Inr (kpi_block fd))"

text \<open>Lines 130-135: a warning (\<open>None\<close>) on an empty frame, the chart's data otherwise.\<close>

definition goals_stage :: "(nat \<Rightarrow> nat) \<Rightarrow> dataframe \<Rightarrow> exn + (string \<times> int) list option" where
  "goals_stage tie fd =
     (if df_empty fd then Inr None
      else if has_column ''Club'' fd \<and> has_column ''Goals'' fd
           then Inr (Some (goals_by_club tie fd))
           else Inl KeyError)"

text \<open>
  Lines 158-176: a warning on an empty frame; otherwise \<open>nlargest\<close> raises KeyError when
  the frame has no column of the metric's name and TypeError when that column has dtype
  object.
\<close>

definition ranking_stage ::
  "(nat \<Rightarrow> nat) \<Rightarrow> (nat \<Rightarrow> nat) \<Rightarrow> string \<Rightarrow> dataframe \<Rightarrow> exn + dataframe option" where
  "ranking_stage tie1 tie2 metric fd =
     (if df_empty fd then Inr None
      else (case map_of (columns fd) metric of
              None \<Rightarrow> Inl KeyError
            | Some t \<Rightarrow>
                if t = Object then Inl TypeError
                else Inr (Some (fig_bar_top tie1 tie2 metric fd))))"

text \<open>
  A well-formed table: its column labels are distinct, as \<open>pd.read_csv\<close> makes them, and
  the columns that the stages read are among them.
\<close>

definition well_formed :: "dataframe \<Rightarrow> bool" where
  "well_formed table =
     (distinct (map fst (columns table))
      \<and> has_column ''Club'' table \<and> has_column ''Position'' table
      \<and> has_column ''Minutes'' table \<and> has_column ''Goals'' table
      \<and> has_column ''Assists'' table)"

subsection \<open>Frames for the examples\<close>

definition scorer :: "int \<Rightarrow> int \<Rightarrow> player" where
  "scorer g a = \<lparr>player_name = ''P'', club = ''ClubA'', position = ''FW'', minutes = 90,
                goals = g, assists = a, stat = (\<lambda>_. 0)\<rparr>"

text \<open>Three rows whose goals add up to \<open>2 ^ 63 + 1\<close>, and forty rows with 23 assists
  between them.\<close>

definition overflow_frame :: dataframe where
  "overflow_frame =
     \<lparr>columns = scenario_columns, rows = [scorer (2 ^ 62) 0, scorer (2 ^ 62) 0, scorer 1 0]\<rparr>"


text \<open>A table without the Club column.\<close>

definition clubless_table :: dataframe where
  "clubless_table = \<lparr>columns = [(''Position'', Object), (''Minutes'', Int64)], rows = [row1]\<rparr>"

section \<open>Properties of the filter\<close>

subsection \<open>What the block does to the script's state\<close>

lemma filter_block_effect:
  assumes "df s < length (heap s)"
  shows "df (filter_block c s) = df s
       \<and> take (length (heap s)) (heap (filter_block c s)) = heap s
       \<and> filtered_df (filter_block c s) < length (heap (filter_block c s))
       \<and> heap (filter_block c s) ! filtered_df (filter_block c s) = filter_result (heap s ! df s) c"
  using assms
  by (simp add: filter_block_def stmt_minutes_def minutes_mask_def stmt_position_def
      stmt_club_def stmt_copy_def bind_filtered_df_def nth_append position_frame_def
      club_frame_def minutes_rows_def filter_result_def)

lemma filter_block_unguarded_effect:
  assumes "df s < length (heap s)"
  shows "heap (filter_block_unguarded c s) ! filtered_df (filter_block_unguarded c s) =
         minutes_rows c (position_frame (heap s ! df s) c)"
  using assms
  by (simp add: filter_block_unguarded_def minutes_mask_def stmt_position_def
      stmt_club_def stmt_copy_def bind_filtered_df_def nth_append position_frame_def
      club_frame_def minutes_rows_def)

lemma apply_filter_eq: "apply_filter table c = filter_result table c"
  using filter_block_effect[of "\<lparr>heap = [table], df = 0, filtered_df = 0\<rparr>" c]
  by (simp add: apply_filter_def Let_def)

lemma apply_filter_unguarded_eq:
  "apply_filter_unguarded table c = minutes_rows c (position_frame table c)"
  using filter_block_unguarded_effect[of "\<lparr>heap = [table], df = 0, filtered_df = 0\<rparr>" c]
  by (simp add: apply_filter_unguarded_def Let_def)

lemma position_frame_rows:
  "\<exists>P. rows (position_frame table c) = filter P (rows table)"
proof (cases "selected_clubs c = []")
  case True
  then have "rows (position_frame table c) = filter (\<lambda>_. False) (rows table)"
    by (simp add: position_frame_def club_frame_def empty_frame_def mask_rows_def)
  then show ?thesis by blast
next
  case False
  then show ?thesis
    by (cases "selected_position c = ''All''")
       (auto simp: position_frame_def club_frame_def mask_rows_def intro: exI)
qed

lemma filter_result_rows:
  "\<exists>P. rows (filter_result table c) = filter P (rows table)"
proof -
  obtain P where P: "rows (position_frame table c) = filter P (rows table)"
    using position_frame_rows by blast
  show ?thesis
  proof (cases "df_empty (position_frame table c)")
    case True
    then show ?thesis using P by (auto simp: filter_result_def)
  next
    case False
    then have "rows (filter_result table c) =
        filter (\<lambda>r. P r \<and> fst (selected_minutes_range c) \<le> minutes r
                          \<and> minutes r \<le> snd (selected_minutes_range c)) (rows table)"
      using P by (simp add: filter_result_def minutes_rows_def mask_rows_def conj_commute)
    then show ?thesis by blast
  qed
qed

lemma position_frame_labels:
  "map fst (columns (position_frame table c)) = map fst (columns table)"
  by (simp add: position_frame_def club_frame_def empty_frame_def mask_rows_def
      case_prod_unfold comp_def)

lemma filter_result_labels:
  "map fst (columns (filter_result table c)) = map fst (columns table)"
  by (simp add: filter_result_def minutes_rows_def mask_rows_def position_frame_labels)

lemma filter_result_no_clubs:
  "selected_clubs c = [] \<Longrightarrow> rows (filter_result table c) = []"
  by (simp add: filter_result_def position_frame_def club_frame_def empty_frame_def
      mask_rows_def df_empty_def minutes_rows_def)

lemma guard_is_noop:
  assumes "columns table \<noteq> []"
  shows "filter_result table c = minutes_rows c (position_frame table c)"
proof (cases "df_empty (position_frame table c)")
  case True
  have "columns (position_frame table c) \<noteq> []"
    using assms position_frame_labels[of table c] by (metis map_is_Nil_conv)
  with True have "rows (position_frame table c) = []"
    by (simp add: df_empty_def)
  then have "minutes_rows c (position_frame table c) = position_frame table c"
    by (simp add: minutes_rows_def mask_rows_def)
  with True show ?thesis
    by (simp add: filter_result_def)
next
  case False
  then show ?thesis
    by (simp add: filter_result_def)
qed

text \<open>On a table that has columns, the filter keeps the rows that pass the three
  tests together.\<close>

lemma apply_filter_selected:
  assumes "columns table \<noteq> []"
  shows "rows (apply_filter table c) = filter (selected c) (rows table)"
proof -
  have "rows (apply_filter table c) = rows (minutes_rows c (position_frame table c))"
    using guard_is_noop[OF assms] by (simp add: apply_filter_eq)
  also have "\<dots> = filter (selected c) (rows table)"
    by (auto simp: minutes_rows_def position_frame_def club_frame_def mask_rows_def
        empty_frame_def selected_def intro!: filter_cong)
  finally show ?thesis .
qed

lemma scenario_filter:
  "filter_result scenario_table scenario_criteria = \<lparr>columns = scenario_columns, rows = [row1]\<rparr>"
  by (simp add: filter_result_def position_frame_def club_frame_def minutes_rows_def
      mask_rows_def df_empty_def scenario_table_def scenario_criteria_def scenario_columns_def
      row1_def row2_def row3_def)


subsection \<open>Claims about the filter\<close>

text \<open>
  Claim C2. When no club is selected, the filter returns a frame without rows, whatever
  the selected position and minutes range are, and the frame still carries the column
  labels of the source table.
\<close>

theorem empty_clubs_gives_empty_frame:
  assumes "selected_clubs c = []"
  shows "rows (apply_filter table c) = []
       \<and> map fst (columns (apply_filter table c)) = map fst (columns table)"
  using assms
  by (simp add: apply_filter_eq filter_result_no_clubs filter_result_labels)

theorem empty_clubs_gives_empty_frame_witness:
  "selected_clubs no_clubs = []
   \<and> rows (apply_filter scenario_table no_clubs) = []
   \<and> map fst (columns (apply_filter scenario_table no_clubs)) =
       [''Player Name'', ''Club'', ''Position'', ''Minutes'', ''Goals'', ''Assists'',
        ''Red Cards'', ''Carries Ended with Goal'', ''xGoT'', ''Passes%'']"
proof -
  have h: "selected_clubs no_clubs = []"
    by (simp add: no_clubs_def)
  show ?thesis
    using h empty_clubs_gives_empty_frame[OF h, of scenario_table]
    by (simp add: scenario_table_def scenario_columns_def)
qed

text \<open>
  Claim C3. On a table that has columns, the pipeline whose minutes mask is guarded by
  \<open>not filtered_df.empty\<close> returns the same frame as the pipeline that applies the mask
  in every case. (\<open>.empty\<close> also holds for a frame without columns, where the guard
  would skip the mask on rows that exist; the loaded table has the columns the script
  reads.)
\<close>

theorem minutes_guard_is_optimization:
  assumes "columns table \<noteq> []"
  shows "apply_filter table c = apply_filter_unguarded table c"
  using guard_is_noop[OF assms]
  by (simp add: apply_filter_eq apply_filter_unguarded_eq)

theorem minutes_guard_is_optimization_witness:
  "columns scenario_table \<noteq> []
   \<and> apply_filter scenario_table no_clubs = apply_filter_unguarded scenario_table no_clubs
   \<and> df_empty (position_frame scenario_table no_clubs)"
proof -
  have h: "columns scenario_table \<noteq> []"
    by (simp add: scenario_table_def scenario_columns_def)
  have "df_empty (position_frame scenario_table no_clubs)"
    by (simp add: df_empty_def position_frame_def club_frame_def empty_frame_def
        mask_rows_def no_clubs_def)
  then show ?thesis
    using h minutes_guard_is_optimization[OF h, of no_clubs] by simp
qed

text \<open>
  Claim C8. The rows of the filtered frame are rows of the table, none more often than
  there; the block leaves \<open>df\<close> bound to the same frame, and every frame that existed
  before is as it was.
\<close>

theorem filter_rows_come_from_table:
  assumes "df s < length (heap s)"
  shows "mset (rows (heap (filter_block c s) ! filtered_df (filter_block c s)))
           \<subseteq># mset (rows (heap s ! df s))
       \<and> df (filter_block c s) = df s
       \<and> heap (filter_block c s) ! df (filter_block c s) = heap s ! df s
       \<and> take (length (heap s)) (heap (filter_block c s)) = heap s
       \<and> mset (rows (apply_filter table c)) \<subseteq># mset (rows table)"
proof -
  note e = filter_block_effect[OF assms, of c]
  obtain P where P: "rows (filter_result (heap s ! df s) c) = filter P (rows (heap s ! df s))"
    using filter_result_rows by blast
  obtain Q where Q: "rows (filter_result table c) = filter Q (rows table)"
    using filter_result_rows by blast
  have "heap (filter_block c s) ! df s = take (length (heap s)) (heap (filter_block c s)) ! df s"
    using assms by simp
  then have same: "heap (filter_block c s) ! df s = heap s ! df s"
    using e by simp
  show ?thesis
    using e P Q same by (simp add: apply_filter_eq)
qed

theorem filter_rows_come_from_table_witness:
  "df \<lparr>heap = [scenario_table], df = 0, filtered_df = 0\<rparr>
     < length (heap \<lparr>heap = [scenario_table], df = 0, filtered_df = 0\<rparr>)
   \<and> df (filter_block scenario_criteria \<lparr>heap = [scenario_table], df = 0, filtered_df = 0\<rparr>) = 0
   \<and> heap (filter_block scenario_criteria \<lparr>heap = [scenario_table], df = 0, filtered_df = 0\<rparr>) ! 0
       = scenario_table
   \<and> rows (apply_filter scenario_table scenario_criteria) = [row1]
   \<and> mset [row1] \<subseteq># mset (rows scenario_table)"
proof -
  have h: "df \<lparr>heap = [scenario_table], df = 0, filtered_df = 0\<rparr>
     < length (heap \<lparr>heap = [scenario_table], df = 0, filtered_df = 0\<rparr>)"
    by simp
  have r: "rows (apply_filter scenario_table scenario_criteria) = [row1]"
    by (simp add: apply_filter_eq scenario_filter)
  show ?thesis
    using filter_rows_come_from_table[OF h, of scenario_criteria scenario_table]
    by (auto simp: r)
qed

text \<open>
  Claim C10. The filter keeps the relative order of the rows: the rows of the filtered
  frame are a subsequence of the rows of the table.
\<close>

theorem filter_keeps_row_order:
  "subseq (rows (apply_filter table c)) (rows table)"
  using filter_result_rows[of table c] by (auto simp: apply_filter_eq)

theorem filter_keeps_row_order_witness:
  "subseq [row1] (rows scenario_table)
   \<and> rows (apply_filter scenario_table scenario_criteria) = [row1]"
proof -
  have r: "rows (apply_filter scenario_table scenario_criteria) = [row1]"
    by (simp add: apply_filter_eq scenario_filter)
  show ?thesis
    using filter_keeps_row_order[of scenario_table scenario_criteria]
    by (simp add: r)
qed

section \<open>Properties of the loader\<close>

lemma astype_float_eq:
  "astype_float to_float cs =
     (if list_all (cell_parses to_float) cs
      then Inr (map (\<lambda>c. Option.bind c to_float) cs)
      else Inl ValueError)"
  by (induction to_float cs rule: astype_float.induct)
     (auto split: option.splits sum.splits)

lemma convert_column_object:
  "convert_column to_float (ObjectSeries cells) =
     (if list_ex contains_percent cells
      then (if list_all (cell_parses to_float) (map replace_percent cells)
            then Inr (FloatSeries
                   (map (\<lambda>c. map_option (\<lambda>v. v / 100) (Option.bind (replace_percent c) to_float)) cells))
            else Inl ValueError)
      else Inr (ObjectSeries cells))"
  by (simp add: convert_column_def astype_float_eq comp_def)

lemma convert_column_raises: "convert_column to_float s = Inl e \<Longrightarrow> e = ValueError"
  by (cases s) (auto simp: convert_column_def astype_float_eq split: if_splits)

lemma convert_columns_raises: "convert_columns to_float frame = Inl e \<Longrightarrow> e = ValueError"
  by (induction to_float frame rule: convert_columns.induct)
     (auto split: sum.splits dest: convert_column_raises)

lemma convert_columns_length:
  "convert_columns to_float frame = Inr frame' \<Longrightarrow> length frame' = length frame"
  by (induction to_float frame arbitrary: frame' rule: convert_columns.induct)
     (auto split: sum.splits)

lemma convert_columns_nth:
  "convert_columns to_float frame = Inr frame' \<Longrightarrow> i < length frame \<Longrightarrow>
   fst (frame' ! i) = fst (frame ! i) \<and>
   convert_column to_float (snd (frame ! i)) = Inr (snd (frame' ! i))"
proof (induction to_float frame arbitrary: frame' i rule: convert_columns.induct)
  case (1 to_float)
  then show ?case by simp
next
  case (2 to_float name s cols)
  then show ?case
    by (cases i) (auto split: sum.splits)
qed

lemma load_data_Some:
  "load_data to_float read_csv file_path = Inr (Some frame', shown) \<longleftrightarrow>
   (\<exists>frame. read_csv file_path = Parsed frame \<and> convert_columns to_float frame = Inr frame' \<and> shown = [])"
  by (auto simp: load_data_def load_body_def split: csv_read.splits sum.splits exn.splits)

lemma load_data_None:
  "load_data to_float read_csv file_path = Inr (None, shown) \<longleftrightarrow>
   (read_csv file_path = Raised FileNotFoundError \<and> shown = [StError file_path])"
  by (auto simp: load_data_def load_body_def split: csv_read.splits sum.splits exn.splits
      dest: convert_columns_raises)

lemma load_data_raises:
  "load_data to_float read_csv file_path = Inl e \<longleftrightarrow>
   (e \<noteq> FileNotFoundError \<and>
    (read_csv file_path = Raised e \<or>
     (\<exists>frame. read_csv file_path = Parsed frame \<and> convert_columns to_float frame = Inl e)))"
  by (auto simp: load_data_def load_body_def split: csv_read.splits sum.splits exn.splits)

lemma load_percent_frame:
  "load_data py_float (\<lambda>_. Parsed percent_frame) ''epl_player_stats_24_25.csv'' =
     Inr (Some [(''Club'', ObjectSeries [Some ''Arsenal'', None, Some ''Chelsea'']),
                (''Passes%'', FloatSeries [Some (17 / 40), Some (1 / 4), None]),
                (''Goals'', IntSeries [1, 2, 3])], [])"
  by (simp add: load_data_def load_body_def convert_column_def py_float_def
      unsigned_decimal_def is_digit_def percent_frame_def)

text \<open>
  Claim C1, as the code has it. In a loaded table, a text column is converted exactly when
  at least one of its cells contains \<open>%\<close>: then every text cell of the column, also one
  without \<open>%\<close>, parses as a float once its \<open>%\<close> are removed, and becomes that number
  divided by 100, and a missing cell stays missing. A text column without any \<open>%\<close> is
  left as it is.
\<close>

theorem percent_column_conversion:
  assumes "read_csv file_path = Parsed frame"
      and "load_data to_float read_csv file_path = Inr (Some frame', shown)"
      and "i < length frame"
      and "frame ! i = (name, ObjectSeries cells)"
  shows "length frame' = length frame
       \<and> (list_ex contains_percent cells \<longrightarrow>
            list_all (cell_parses to_float) (map replace_percent cells)
            \<and> frame' ! i =
                (name, FloatSeries
                   (map (\<lambda>c. map_option (\<lambda>v. v / 100) (Option.bind (replace_percent c) to_float))
                      cells)))
       \<and> (\<not> list_ex contains_percent cells \<longrightarrow> frame' ! i = (name, ObjectSeries cells))"
proof -
  from assms(1,2) have conv: "convert_columns to_float frame = Inr frame'"
    by (simp add: load_data_Some)
  note len = convert_columns_length[OF conv]
  from convert_columns_nth[OF conv assms(3)] assms(4)
  have nm: "fst (frame' ! i) = name"
    and col: "convert_column to_float (ObjectSeries cells) = Inr (snd (frame' ! i))"
    by simp_all
  show ?thesis
  proof (cases "list_ex contains_percent cells")
    case True
    with col have "list_all (cell_parses to_float) (map replace_percent cells)"
      by (simp add: convert_column_object split: if_splits)
    with True col nm len show ?thesis
      by (auto simp: convert_column_object prod_eq_iff)
  next
    case False
    with col nm len show ?thesis
      by (auto simp: convert_column_object prod_eq_iff)
  qed
qed

theorem percent_column_conversion_witness:
  "(\<lambda>_. Parsed percent_frame) ''epl_player_stats_24_25.csv'' = Parsed percent_frame
   \<and> (1::nat) < length percent_frame
   \<and> percent_frame ! 1 = (''Passes%'', ObjectSeries [Some ''42.5%'', Some ''25'', None])
   \<and> list_ex contains_percent [Some ''42.5%'', Some ''25'', None]
   \<and> (\<exists>frame'. load_data py_float (\<lambda>_. Parsed percent_frame) ''epl_player_stats_24_25.csv''
                   = Inr (Some frame', [])
        \<and> length frame' = 3
        \<and> frame' ! 1 = (''Passes%'', FloatSeries [Some (17 / 40), Some (1 / 4), None]))"
proof -
  let ?rd = "\<lambda>_::string. Parsed percent_frame"
  let ?fr = "[(''Club'', ObjectSeries [Some ''Arsenal'', None, Some ''Chelsea'']),
              (''Passes%'', FloatSeries [Some (17 / 40), Some (1 / 4), None]),
              (''Goals'', IntSeries [1, 2, 3])]"
  have a: "?rd ''epl_player_stats_24_25.csv'' = Parsed percent_frame" by simp
  have b: "load_data py_float ?rd ''epl_player_stats_24_25.csv'' = Inr (Some ?fr, [])"
    by (rule load_percent_frame)
  have c: "(1::nat) < length percent_frame" by (simp add: percent_frame_def)
  have d: "percent_frame ! 1 = (''Passes%'', ObjectSeries [Some ''42.5%'', Some ''25'', None])"
    by (simp add: percent_frame_def)
  have e: "list_ex contains_percent [Some ''42.5%'', Some ''25'', None]" by simp
  from percent_column_conversion[OF a b c d] e
  have "length ?fr = length percent_frame"
    by blast
  with a b c d e show ?thesis
    by (simp add: percent_frame_def)
qed

text \<open>
  The claim as stated fails: a column that mixes \<open>"42.5%"\<close> with \<open>"25"\<close> is converted,
  to 0.425 and 0.25, and not left as text.
\<close>

theorem mixed_column_is_converted:
  "\<not> list_all contains_percent [Some ''42.5%'', Some ''25'']
   \<and> load_data py_float (\<lambda>_. Parsed [(''Passes%'', ObjectSeries [Some ''42.5%'', Some ''25''])])
        ''epl_player_stats_24_25.csv''
     = Inr (Some [(''Passes%'', FloatSeries [Some (17 / 40), Some (1 / 4)])], [])"
  by (simp add: load_data_def load_body_def convert_column_def py_float_def
      unsigned_decimal_def is_digit_def)

section \<open>Properties of the ranking metrics\<close>

lemma str_in_sublist: "str_in sub s \<longleftrightarrow> sublist sub s"
  by (induction s) (auto simp: sublist_Cons_right)

lemma numeric_cols_set:
  "set (numeric_cols d) = {name. \<exists>t. (name, t) \<in> set (columns d) \<and> (t = Int64 \<or> t = Float64)}"
  by (auto simp: numeric_cols_def is_number_def image_iff)

text \<open>
  Claim C7. The metrics offered for ranking are the numeric columns that are not on the
  exclusion list and whose name contains neither \<open>Ended\<close> nor \<open>xGoT\<close>; no column of
  the exclusion list is among them; and they do not depend on the rows of the frame.
\<close>

theorem metrics_to_rank_policy:
  "set (metrics_to_rank d) =
     {name. (\<exists>t. (name, t) \<in> set (columns d) \<and> (t = Int64 \<or> t = Float64))
            \<and> name \<notin> set metrics_to_exclude
            \<and> \<not> sublist ''Ended'' name \<and> \<not> sublist ''xGoT'' name}
   \<and> metrics_to_exclude =
       [''Big Chances Missed'', ''Hit Woodwork'', ''Offsides'', ''Goals Conceded'',
        ''Own Goals'', ''Yellow Cards'', ''Red Cards'', ''Penalties Saved'']
   \<and> (\<forall>name \<in> set metrics_to_exclude. name \<notin> set (metrics_to_rank d))
   \<and> metrics_to_rank (d\<lparr>rows := rs\<rparr>) = metrics_to_rank d"
proof -
  have "set (metrics_to_rank d) =
     {name. name \<in> set (numeric_cols d) \<and> name \<notin> set metrics_to_exclude
            \<and> \<not> sublist ''Ended'' name \<and> \<not> sublist ''xGoT'' name}"
    by (auto simp: metrics_to_rank_def str_in_sublist)
  then have a: "set (metrics_to_rank d) =
     {name. (\<exists>t. (name, t) \<in> set (columns d) \<and> (t = Int64 \<or> t = Float64))
            \<and> name \<notin> set metrics_to_exclude
            \<and> \<not> sublist ''Ended'' name \<and> \<not> sublist ''xGoT'' name}"
    by (simp add: numeric_cols_set)
  have b: "\<forall>name \<in> set metrics_to_exclude. name \<notin> set (metrics_to_rank d)"
    by (simp add: metrics_to_rank_def)
  have c: "metrics_to_rank (d\<lparr>rows := rs\<rparr>) = metrics_to_rank d"
    by (simp add: metrics_to_rank_def numeric_cols_def)
  show ?thesis
    using a b c by (simp add: metrics_to_exclude_def)
qed

lemma scenario_metrics: "metrics_to_rank scenario_table = [''Minutes'', ''Goals'', ''Assists'', ''Passes%'']"
  by (simp add: metrics_to_rank_def numeric_cols_def is_number_def metrics_to_exclude_def
      scenario_table_def scenario_columns_def)

theorem metrics_to_rank_policy_witness:
  "metrics_to_rank scenario_table = [''Minutes'', ''Goals'', ''Assists'', ''Passes%'']
   \<and> (''Red Cards'', Int64) \<in> set (columns scenario_table)
   \<and> ''Red Cards'' \<in> set metrics_to_exclude
   \<and> ''Red Cards'' \<notin> set (metrics_to_rank scenario_table)
   \<and> metrics_to_rank (scenario_table\<lparr>rows := []\<rparr>) = metrics_to_rank scenario_table"
proof -
  have m: "''Red Cards'' \<in> set metrics_to_exclude"
    by (simp add: metrics_to_exclude_def)
  have c: "(''Red Cards'', Int64) \<in> set (columns scenario_table)"
    by (simp add: scenario_table_def scenario_columns_def)
  show ?thesis
    using m c metrics_to_rank_policy[of scenario_table "[]"]
    by (simp add: scenario_metrics)
qed

section \<open>Properties of the summary figures\<close>

subsection \<open>Rounding to binary64\<close>


lemma round_half_even_of_int [simp]: "round_half_even (of_int k) = k"
  by (simp add: round_half_even_def)

lemma pow2_bitlen:
  assumes "0 < k"
  shows "(2::rat) powi (bitlen k - 1) \<le> of_int k" and "of_int k < (2::rat) powi (bitlen k)"
proof -
  from bitlen_bounds[OF assms] have a: "2 ^ nat (bitlen k - 1) \<le> k" and b: "k < 2 ^ nat (bitlen k)"
    by simp_all
  have ge: "1 \<le> bitlen k"
    using assms bitlen_eq_zero_iff[of k] bitlen_nonneg[of k] by linarith
  have "(2::rat) powi (bitlen k - 1) = 2 ^ nat (bitlen k - 1)"
    using ge by (simp add: power_int_def)
  also have "\<dots> = of_int (2 ^ nat (bitlen k - 1))" by simp
  also have "\<dots> \<le> of_int k" using a by (simp only: of_int_le_iff)
  finally show "(2::rat) powi (bitlen k - 1) \<le> of_int k" .
  have "(of_int k :: rat) < of_int (2 ^ nat (bitlen k))"
    using b by (simp only: of_int_less_iff)
  also have "\<dots> = 2 ^ nat (bitlen k)" by simp
  also have "\<dots> = (2::rat) powi (bitlen k)"
    using ge by (simp add: power_int_def)
  finally show "of_int k < (2::rat) powi (bitlen k)" .
qed

lemma float_exp_bounds:
  assumes "x \<noteq> 0"
  shows "2 powi (float_exp x) \<le> \<bar>x\<bar>" and "\<bar>x\<bar> < 2 powi (float_exp x + 1)"
proof -
  obtain p q where pq: "quotient_of x = (p, q)" by (cases "quotient_of x")
  then have q: "0 < q" and x: "x = of_int p / of_int q"
    by (simp_all add: quotient_of_denom_pos quotient_of_div)
  from assms x have p: "0 < \<bar>p\<bar>" by auto
  define d where "d = bitlen \<bar>p\<bar> - bitlen q"
  have ax: "\<bar>x\<bar> = of_int \<bar>p\<bar> / of_int q"
    using q by (simp add: x abs_divide)
  have qpos: "(0::rat) < of_int q" using q by simp
  have lo: "(2::rat) powi (d - 1) \<le> \<bar>x\<bar>"
  proof -
    have "(2::rat) powi (d - 1) = 2 powi (bitlen \<bar>p\<bar> - 1) / 2 powi (bitlen q)"
      by (simp add: d_def power_int_diff)
    also have "\<dots> \<le> of_int \<bar>p\<bar> / of_int q"
      using pow2_bitlen[OF p] pow2_bitlen[OF q] qpos
      by (intro frac_le) simp_all
    finally show ?thesis by (simp add: ax)
  qed
  have hi: "\<bar>x\<bar> < (2::rat) powi (d + 1)"
  proof -
    have "of_int \<bar>p\<bar> / of_int q < (2::rat) powi (bitlen \<bar>p\<bar>) / 2 powi (bitlen q - 1)"
      using pow2_bitlen[OF p] pow2_bitlen[OF q] qpos
      by (intro frac_less) simp_all
    also have "\<dots> = (2::rat) powi (d + 1)"
      by (simp add: d_def power_int_diff power_int_add field_simps)
    finally show ?thesis by (simp add: ax)
  qed
  have e: "float_exp x = (if 2 powi d \<le> \<bar>x\<bar> then d else d - 1)"
    by (simp add: float_exp_def pq d_def Let_def)
  show "2 powi (float_exp x) \<le> \<bar>x\<bar>"
    using lo by (simp add: e)
  show "\<bar>x\<bar> < 2 powi (float_exp x + 1)"
    using hi by (auto simp: e not_le)
qed


lemma fl_of_int:
  assumes "\<bar>k\<bar> < 2 ^ 53"
  shows "fl (of_int k) = of_int k"
proof (cases "k = 0")
  case True
  then show ?thesis by (simp add: fl_def)
next
  case False
  let ?x = "of_int k :: rat"
  have nz: "?x \<noteq> 0" using False by simp
  have "(2::rat) powi (float_exp ?x) \<le> \<bar>?x\<bar>"
    by (rule float_exp_bounds(1)[OF nz])
  also have "\<bar>?x\<bar> < 2 ^ 53"
  proof -
    have "\<bar>?x\<bar> = of_int \<bar>k\<bar>" by simp
    also have "\<dots> < of_int (2 ^ 53)" using assms by (simp only: of_int_less_iff)
    finally show ?thesis by simp
  qed
  finally have "(2::rat) powi (float_exp ?x) < 2 powi 53" by simp
  then have e: "float_exp ?x < 53"
    using power_int_increasing[of 53 "float_exp ?x" "2::rat"] by (cases "float_exp ?x < 53") simp_all
  define j where "j = nat (52 - float_exp ?x)"
  have u: "(2::rat) powi (float_exp ?x - 52) = 1 / 2 ^ j"
  proof -
    have "float_exp ?x - 52 = - int j" using e by (simp add: j_def)
    then have "(2::rat) powi (float_exp ?x - 52) = 2 powi (- int j)" by simp
    also have "\<dots> = inverse (2 ^ j)" by (simp only: power_int_minus power_int_of_nat)
    finally show ?thesis by (simp add: inverse_eq_divide)
  qed
  have "?x / (1 / 2 ^ j) = of_int (k * 2 ^ j)" by simp
  then have "round_half_even (?x / (1 / 2 ^ j)) = k * 2 ^ j"
    by (simp only: round_half_even_of_int)
  then show ?thesis
    using nz by (simp add: fl_def Let_def u)
qed


lemma foldl_float_exact:
  "\<bar>a\<bar> + sum_list (map abs xs) < 2 ^ 53 \<Longrightarrow>
   foldl (\<lambda>acc x. fl (acc + fl (of_int x))) (of_int a) xs = of_int (a + sum_list xs)"
proof (induction xs arbitrary: a)
  case Nil
  then show ?case by simp
next
  case (Cons x xs)
  have nn: "0 \<le> sum_list (map abs xs)"
    by (rule sum_list_nonneg) auto
  from Cons.prems nn have x: "\<bar>x\<bar> < 2 ^ 53" and ax: "\<bar>a + x\<bar> < 2 ^ 53"
    and rest: "\<bar>a + x\<bar> + sum_list (map abs xs) < 2 ^ 53"
    by simp_all
  have "fl (of_int a + fl (of_int x)) = fl (of_int (a + x))"
    by (simp add: fl_of_int[OF x])
  also have "\<dots> = of_int (a + x)"
    by (rule fl_of_int[OF ax])
  finally have step: "fl (of_int a + fl (of_int x)) = of_int (a + x)" .
  show ?case
    using Cons.IH[OF rest] by (simp add: step add.assoc)
qed

lemma float_sum_exact:
  assumes "sum_list (map abs xs) < 2 ^ 53"
  shows "float_sum xs = of_int (sum_list xs)"
  using foldl_float_exact[of 0 xs] assms by (simp add: float_sum_def)










lemma series_mean_exact:
  assumes "xs \<noteq> []" and "sum_list (map abs xs) \<le> 2 ^ 43"
  shows "series_mean xs = Some (fl (arithmetic_mean xs))"
proof -
  have "sum_list (map abs xs) < 2 ^ 53" using assms(2) by simp
  then have "float_sum xs = of_int (sum_list xs)" by (rule float_sum_exact)
  with assms(1) show ?thesis
    by (simp add: series_mean_def arithmetic_mean_def)
qed


lemma py_round_Some: "py_round (Some x) nd = Some (np_round x nd)"
  by (simp add: py_round_def)



lemma kpi_block_defined:
  "\<exists>a m. avg_assists (kpi_block fd) = Some a \<and> avg_minutes (kpi_block fd) = Some m"
proof (cases "df_empty fd")
  case True
  then show ?thesis by (simp add: kpi_block_def)
next
  case False
  then have "rows fd \<noteq> []" by (simp add: df_empty_def)
  with False show ?thesis
    by (simp add: kpi_block_def series_mean_def py_round_Some)
qed


lemma kpi_block_eval:
  assumes "\<not> df_empty fd"
      and "sum_list (map abs (map assists (rows fd))) \<le> 2 ^ 43"
      and "sum_list (map abs (map minutes (rows fd))) \<le> 2 ^ 43"
  shows "kpi_block fd =
     \<lparr>total_players = int (length (rows fd)),
      total_goals = wrap_int64 (sum_list (map goals (rows fd))),
      avg_assists = Some (np_round (fl (arithmetic_mean (map assists (rows fd)))) 2),
      avg_minutes = Some (np_round (fl (arithmetic_mean (map minutes (rows fd)))) 0)\<rparr>"
proof -
  from assms(1) have "rows fd \<noteq> []" by (simp add: df_empty_def)
  then have nea: "map assists (rows fd) \<noteq> []" and nem: "map minutes (rows fd) \<noteq> []"
    by simp_all
  have "series_mean (map assists (rows fd)) = Some (fl (arithmetic_mean (map assists (rows fd))))"
    by (rule series_mean_exact[OF nea assms(2)])
  moreover
  have "series_mean (map minutes (rows fd)) = Some (fl (arithmetic_mean (map minutes (rows fd))))"
    by (rule series_mean_exact[OF nem assms(3)])
  ultimately show ?thesis
    using assms(1)
    by (simp add: kpi_block_def series_sum_def py_round_Some)
qed

lemma round_3: "np_round (fl 3) 2 = 3"
  by code_simp

lemma round_900: "np_round (fl 900) 0 = 900"
  by code_simp



lemma scenario_kpi1:
  "kpi_block \<lparr>columns = scenario_columns, rows = [row1]\<rparr> =
     \<lparr>total_players = 1, total_goals = 10, avg_assists = Some 3, avg_minutes = Some 900\<rparr>"
proof -
  let ?fd = "\<lparr>columns = scenario_columns, rows = [row1]\<rparr>"
  have "kpi_block ?fd =
     \<lparr>total_players = int (length (rows ?fd)),
      total_goals = wrap_int64 (sum_list (map goals (rows ?fd))),
      avg_assists = Some (np_round (fl (arithmetic_mean (map assists (rows ?fd)))) 2),
      avg_minutes = Some (np_round (fl (arithmetic_mean (map minutes (rows ?fd)))) 0)\<rparr>"
    by (rule kpi_block_eval) (simp_all add: df_empty_def scenario_columns_def row1_def)
  then show ?thesis
    by (simp add: row1_def arithmetic_mean_def wrap_int64_def round_3 round_900)
qed







section \<open>Properties of the sorts\<close>

lemma mset_unstable_sort: "mset (unstable_sort tie f rs) = mset rs"
proof -
  have "mset (unstable_sort tie f rs) = image_mset snd (mset (enumerate 0 rs))"
    by (simp add: unstable_sort_def)
  also have "\<dots> = mset rs"
    by (metis mset_map map_snd_enumerate)
  finally show ?thesis .
qed

lemma sorted_unstable_sort: "sorted (map f (unstable_sort tie f rs))"
  by (simp add: unstable_sort_def comp_def)

lemma length_unstable_sort: "length (unstable_sort tie f rs) = length rs"
  by (metis mset_unstable_sort size_mset)

lemma mset_sort_values_desc: "mset (sort_values_desc tie f rs) = mset rs"
  by (simp add: sort_values_desc_def mset_unstable_sort)

lemma sort_values_desc_sorted: "sorted (rev (map f (sort_values_desc tie f rs)))"
  by (simp add: sort_values_desc_def rev_map sorted_unstable_sort)

lemma mset_mergesort_desc: "mset (mergesort_desc f rs) = mset rs"
  by (simp add: mergesort_desc_def)

lemma mergesort_desc_sorted: "sorted (rev (map f (mergesort_desc f rs)))"
  by (simp add: mergesort_desc_def rev_map)

lemma mergesort_desc_stable:
  "filter (\<lambda>r. f r = k) (mergesort_desc f rs) = filter (\<lambda>r. f r = k) rs"
proof -
  have "filter (\<lambda>r. f r = k) (mergesort_desc f rs) =
        rev (filter (\<lambda>r. f r = k) (sort_key f (rev rs)))"
    by (simp add: mergesort_desc_def rev_filter)
  also have "\<dots> = rev (filter (\<lambda>r. f r = k) (rev rs))"
    by (simp add: sort_key_stable)
  also have "\<dots> = filter (\<lambda>r. f r = k) rs"
    by (simp add: rev_filter)
  finally show ?thesis .
qed

lemma map_insort_key:
  "map g (insort_key (\<lambda>p. f (g p)) x xs) = insort_key f (g x) (map g xs)"
  by (induction xs) auto

lemma map_sort_key: "map g (sort_key (\<lambda>p. f (g p)) xs) = sort_key f (map g xs)"
  by (induction xs) (auto simp: map_insort_key)

lemma stable_when_tie_is_constant: "unstable_sort (\<lambda>_. c) f rs = sort_key f rs"
  by (simp add: unstable_sort_def sort_key_const map_sort_key map_snd_enumerate)


section \<open>Properties of the top-10 ranking\<close>

lemma filter_take_prefix:
  "filter P (take n xs) = take (length (filter P (take n xs))) (filter P xs)"
proof -
  have "filter P xs = filter P (take n xs) @ filter P (drop n xs)"
    by (metis append_take_drop_id filter_append)
  then show ?thesis by simp
qed

lemma desc_take_drop:
  assumes "sorted (rev (map f ds))" and "x \<in> set (take m ds)" and "y \<in> set (drop m ds)"
  shows "f y \<le> f x"
proof -
  have "rev (map f ds) = rev (map f (drop m ds)) @ rev (map f (take m ds))"
    by (metis append_take_drop_id map_append rev_append)
  with assms(1) have "\<forall>a \<in> set (rev (map f (drop m ds))). \<forall>b \<in> set (rev (map f (take m ds))). a \<le> b"
    by (simp add: sorted_append)
  with assms(2,3) show ?thesis by simp
qed

lemma mset_minus_take: "mset xs - mset (take m xs) = mset (drop m xs)"
proof -
  have "mset xs = mset (take m xs) + mset (drop m xs)"
    by (metis append_take_drop_id mset_append)
  then show ?thesis by simp
qed

text \<open>\<open>nlargest\<close> takes the first rows of a descending order of the frame, and of the rows
  with one value the earliest.\<close>

lemma nlargest_take:
  "\<exists>ds. mset ds = mset rs \<and> sorted (rev (map f ds)) \<and> nlargest tie n f rs = take (nat n) ds"
proof (cases "int (length rs) \<le> n")
  case True
  have "nlargest tie n f rs = take (nat n) (sort_values_desc tie f rs)"
    using True by (simp add: nlargest_def)
  then show ?thesis
    using mset_sort_values_desc sort_values_desc_sorted by blast
next
  case False
  have "nlargest tie n f rs = take (nat n) (mergesort_desc f rs)"
    using False by (simp add: nlargest_def)
  then show ?thesis
    using mset_mergesort_desc mergesort_desc_sorted by blast
qed

lemma nlargest_ties:
  "\<exists>m. mset (filter (\<lambda>r. f r = v) (nlargest tie n f rs)) = mset (take m (filter (\<lambda>r. f r = v) rs))"
proof (cases "int (length rs) \<le> n")
  case True
  have len: "length (sort_values_desc tie f rs) = length rs"
    by (metis mset_sort_values_desc size_mset)
  have "nlargest tie n f rs = (if n \<le> 0 then [] else sort_values_desc tie f rs)"
    using True len by (simp add: nlargest_def)
  moreover have "rs = []" if "n \<le> 0"
    using True that by (cases rs) simp_all
  ultimately have "mset (nlargest tie n f rs) = mset rs"
    by (auto simp: mset_sort_values_desc)
  then have "mset (filter (\<lambda>r. f r = v) (nlargest tie n f rs)) = mset (filter (\<lambda>r. f r = v) rs)"
    by (metis mset_filter)
  then have "mset (filter (\<lambda>r. f r = v) (nlargest tie n f rs))
      = mset (take (length (filter (\<lambda>r. f r = v) rs)) (filter (\<lambda>r. f r = v) rs))"
    by simp
  then show ?thesis by blast
next
  case False
  have "nlargest tie n f rs = take (nat n) (mergesort_desc f rs)"
    using False by (simp add: nlargest_def)
  then have "filter (\<lambda>r. f r = v) (nlargest tie n f rs) =
      take (length (filter (\<lambda>r. f r = v) (take (nat n) (mergesort_desc f rs))))
        (filter (\<lambda>r. f r = v) (mergesort_desc f rs))"
    using filter_take_prefix[of "\<lambda>r. f r = v" "nat n" "mergesort_desc f rs"] by simp
  then show ?thesis
    by (metis mergesort_desc_stable)
qed

lemma ranking_chart_rows:
  "rows (ranking_chart tie1 tie2 n metric fd) =
     unstable_sort tie2 (column metric) (nlargest tie1 n (column metric) (rows fd))"
  by (simp add: ranking_chart_def df_sort_values_def top_n_players_def sort_values_asc_def)

text \<open>
  Claim C5. The rows of the ranking chart, \<open>frame.nlargest(n, metric)\<close> sorted
  ascending, whatever the two sorts do with equal values: there are at most \<open>n\<close> of
  them, as many as the frame has when it has fewer; they are rows of the frame; each has a
  value at least that of every row left out; among the rows with one value the first ones
  of the frame are those taken; the values ascend; and a frame of at most \<open>n\<close> rows is
  returned whole. The script's chart is the case \<open>n = 10\<close>.
\<close>

theorem top_n_ranking:
  "int (length (rows (ranking_chart tie1 tie2 n metric fd))) \<le> max 0 n
   \<and> length (rows (ranking_chart tie1 tie2 n metric fd)) = min (nat n) (length (rows fd))
   \<and> mset (rows (ranking_chart tie1 tie2 n metric fd)) \<subseteq># mset (rows fd)
   \<and> (\<forall>r \<in># mset (rows (ranking_chart tie1 tie2 n metric fd)).
        \<forall>s \<in># mset (rows fd) - mset (rows (ranking_chart tie1 tie2 n metric fd)).
          column metric s \<le> column metric r)
   \<and> (\<forall>v. \<exists>m. mset (filter (\<lambda>r. column metric r = v) (rows (ranking_chart tie1 tie2 n metric fd)))
                 = mset (take m (filter (\<lambda>r. column metric r = v) (rows fd))))
   \<and> sorted (map (column metric) (rows (ranking_chart tie1 tie2 n metric fd)))
   \<and> (int (length (rows fd)) \<le> n \<longrightarrow>
        mset (rows (ranking_chart tie1 tie2 n metric fd)) = mset (rows fd))
   \<and> fig_bar_top tie1 tie2 metric fd = ranking_chart tie1 tie2 10 metric fd"
proof -
  let ?f = "column metric"
  let ?T = "nlargest tie1 n ?f (rows fd)"
  let ?R = "rows (ranking_chart tie1 tie2 n metric fd)"
  have R: "?R = unstable_sort tie2 ?f ?T"
    by (rule ranking_chart_rows)
  have mR: "mset ?R = mset ?T"
    by (simp add: R mset_unstable_sort)
  obtain ds where ds: "mset ds = mset (rows fd)" and sds: "sorted (rev (map ?f ds))"
    and T: "?T = take (nat n) ds"
    using nlargest_take by blast
  have lenD: "length ds = length (rows fd)"
    using ds by (metis size_mset)
  have len: "length ?R = min (nat n) (length (rows fd))"
    by (simp add: R length_unstable_sort T lenD min.commute)
  then have 1: "int (length ?R) \<le> max 0 n"
    by simp
  have 2: "mset ?R \<subseteq># mset (rows fd)"
  proof -
    have "mset (take (nat n) ds) \<subseteq># mset ds"
      by (metis append_take_drop_id mset_append mset_subset_eq_add_left)
    then show ?thesis by (simp add: mR T ds)
  qed
  have rest: "mset (rows fd) - mset ?R = mset (drop (nat n) ds)"
    using mset_minus_take[of ds "nat n"] by (simp add: mR T ds)
  have 3: "\<forall>r \<in># mset ?R. \<forall>s \<in># mset (rows fd) - mset ?R. ?f s \<le> ?f r"
  proof (intro ballI)
    fix r s
    assume "r \<in># mset ?R" and s: "s \<in># mset (rows fd) - mset ?R"
    then have "r \<in># mset (take (nat n) ds)"
      by (simp only: mR T)
    then have "r \<in> set (take (nat n) ds)" by simp
    moreover from s have "s \<in> set (drop (nat n) ds)"
      by (simp add: rest)
    ultimately show "?f s \<le> ?f r"
      by (rule desc_take_drop[OF sds])
  qed
  have 4: "\<forall>v. \<exists>m. mset (filter (\<lambda>r. ?f r = v) ?R)
                     = mset (take m (filter (\<lambda>r. ?f r = v) (rows fd)))"
  proof
    fix v
    have "mset (filter (\<lambda>r. ?f r = v) ?R) = mset (filter (\<lambda>r. ?f r = v) ?T)"
      using mR by (metis mset_filter)
    then show "\<exists>m. mset (filter (\<lambda>r. ?f r = v) ?R)
                  = mset (take m (filter (\<lambda>r. ?f r = v) (rows fd)))"
      using nlargest_ties[of ?f v tie1 n "rows fd"] by simp
  qed
  have 5: "sorted (map ?f ?R)"
    by (simp add: R sorted_unstable_sort)
  have 6: "int (length (rows fd)) \<le> n \<longrightarrow> mset ?R = mset (rows fd)"
  proof
    assume "int (length (rows fd)) \<le> n"
    then have "take (nat n) ds = ds"
      using lenD by simp
    then show "mset ?R = mset (rows fd)"
      by (simp add: mR T ds)
  qed
  have 7: "fig_bar_top tie1 tie2 metric fd = ranking_chart tie1 tie2 10 metric fd"
    by (simp add: fig_bar_top_def ranking_chart_def top_10_players_def)
  from 1 len 2 3 4 5 6 7 show ?thesis by blast
qed

lemma ranking_example:
  "rows (ranking_chart (\<lambda>_. 0) (\<lambda>_. 0) 2 ''Goals''
           \<lparr>columns = scenario_columns, rows = [row2, row3, row4, row1]\<rparr>)
     = [row3, row1]"
  by (simp add: ranking_chart_rows stable_when_tie_is_constant nlargest_def mergesort_desc_def
      column_def row1_def row2_def row3_def row4_def)

lemma ranking_example_10:
  "rows (fig_bar_top (\<lambda>_. 0) (\<lambda>_. 0) ''Goals''
           \<lparr>columns = scenario_columns, rows = [row3, row1, row4, row2]\<rparr>)
     = [row2, row3, row4, row1]"
  by (simp add: fig_bar_top_def top_10_players_def df_sort_values_def top_n_players_def
      nlargest_def sort_values_asc_def sort_values_desc_def stable_when_tie_is_constant
      column_def row1_def row2_def row3_def row4_def)

theorem top_n_ranking_witness:
  "rows (ranking_chart (\<lambda>_. 0) (\<lambda>_. 0) 2 ''Goals''
           \<lparr>columns = scenario_columns, rows = [row2, row3, row4, row1]\<rparr>)
     = [row3, row1]
   \<and> mset [row2, row3, row4, row1] - mset [row3, row1] = mset [row2, row4]
   \<and> column ''Goals'' row2 \<le> column ''Goals'' row3
   \<and> column ''Goals'' row4 \<le> column ''Goals'' row3
   \<and> column ''Goals'' row4 = column ''Goals'' row3
   \<and> sorted (map (column ''Goals'') [row3, row1])
   \<and> rows (fig_bar_top (\<lambda>_. 0) (\<lambda>_. 0) ''Goals''
             \<lparr>columns = scenario_columns, rows = [row3, row1, row4, row2]\<rparr>)
       = [row2, row3, row4, row1]"
proof -
  let ?fd = "\<lparr>columns = scenario_columns, rows = [row2, row3, row4, row1]\<rparr>"
  have d: "mset [row2, row3, row4, row1] - mset [row3, row1] = mset [row2, row4]"
    by simp
  have t: "column ''Goals'' row4 = column ''Goals'' row3"
    by (simp add: column_def row3_def row4_def)
  from top_n_ranking[of "\<lambda>_. 0" "\<lambda>_. 0" 2 "''Goals''" ?fd]
  have "\<forall>r \<in># mset [row3, row1]. \<forall>s \<in># mset [row2, row4].
          column ''Goals'' s \<le> column ''Goals'' r"
    and "sorted (map (column ''Goals'') [row3, row1])"
    unfolding ranking_example using d by simp_all
  then show ?thesis
    using d t by (simp add: ranking_example ranking_example_10)
qed

section \<open>Properties of the goals per club\<close>

lemma groupby_sum_keys:
  "map fst (groupby_sum key val rs) = sort (remdups (map key rs))"
  by (simp add: groupby_sum_def comp_def)

lemma goals_by_club_mset:
  "mset (goals_by_club tie fd) = mset (groupby_sum club goals (rows fd))"
  by (simp add: goals_by_club_def mset_sort_values_desc)

text \<open>
  Claim C6, as the code has it. The goals per club, whatever the sort does with equal
  sums: one pair for each club of the frame; the sum of a club is the \<open>int64\<close> sum of
  the goals of its rows, which is their sum when that sum fits in 64 bits; and the sums
  descend. Nothing is said of the order of clubs with equal sums.
\<close>

theorem goals_by_club_sums:
  "distinct (map fst (goals_by_club tie fd))
   \<and> set (map fst (goals_by_club tie fd)) = club ` set (rows fd)
   \<and> (\<forall>(k, t) \<in> set (goals_by_club tie fd).
        t = wrap_int64 (sum_list (map goals (filter (\<lambda>r. club r = k) (rows fd))))
        \<and> (- (2 ^ 63) \<le> sum_list (map goals (filter (\<lambda>r. club r = k) (rows fd)))
             \<and> sum_list (map goals (filter (\<lambda>r. club r = k) (rows fd))) < 2 ^ 63
           \<longrightarrow> t = sum_list (map goals (filter (\<lambda>r. club r = k) (rows fd)))))
   \<and> sorted (rev (map snd (goals_by_club tie fd)))"
proof -
  let ?B = "groupby_sum club goals (rows fd)"
  let ?G = "goals_by_club tie fd"
  have m: "mset ?G = mset ?B" by (rule goals_by_club_mset)
  then have mk: "mset (map fst ?G) = mset (map fst ?B)" by simp
  have dB: "distinct (map fst ?B)" by (simp add: groupby_sum_keys)
  have 1: "distinct (map fst ?G)"
    using mk dB by (metis mset_eq_imp_distinct_iff)
  have "set (map fst ?G) = set (map fst ?B)"
    using mk by (metis set_mset_mset)
  then have 2: "set (map fst ?G) = club ` set (rows fd)"
    by (simp add: groupby_sum_keys)
  have sG: "set ?G = set ?B"
    using m by (metis set_mset_mset)
  have 3: "\<forall>(k, t) \<in> set ?G.
        t = wrap_int64 (sum_list (map goals (filter (\<lambda>r. club r = k) (rows fd))))
        \<and> (- (2 ^ 63) \<le> sum_list (map goals (filter (\<lambda>r. club r = k) (rows fd)))
             \<and> sum_list (map goals (filter (\<lambda>r. club r = k) (rows fd))) < 2 ^ 63
           \<longrightarrow> t = sum_list (map goals (filter (\<lambda>r. club r = k) (rows fd))))"
    by (auto simp: sG groupby_sum_def series_sum_def wrap_int64_def)
  have 4: "sorted (rev (map snd ?G))"
    unfolding goals_by_club_def by (rule sort_values_desc_sorted)
  from 1 2 3 4 show ?thesis by blast
qed

lemma tied_clubs_stable:
  "goals_by_club (\<lambda>_. 0) \<lparr>columns = scenario_columns, rows = [row3, row4, row5]\<rparr>
     = [(''ClubA'', 5), (''ClubB'', 5), (''ClubC'', 5)]"
  by (simp add: goals_by_club_def groupby_sum_def sort_values_desc_def
      stable_when_tie_is_constant series_sum_def wrap_int64_def row3_def row4_def row5_def)

lemma tied_clubs_reversed:
  "goals_by_club (\<lambda>i. 2 - i) \<lparr>columns = scenario_columns, rows = [row3, row4, row5]\<rparr>
     = [(''ClubC'', 5), (''ClubB'', 5), (''ClubA'', 5)]"
  by (simp add: goals_by_club_def groupby_sum_def sort_values_desc_def unstable_sort_def
      enumerate_eq_zip upt_rec series_sum_def wrap_int64_def row3_def row4_def row5_def)

text \<open>With sums 1, 1, 2, 2 the clubs can come out in descending order of their names,
  which no stable sort of the groups gives.\<close>

lemma ties_in_reverse:
  "sort_values_desc (\<lambda>i. 3 - i) snd [(''C0'', 1::int), (''C1'', 1), (''C2'', 2), (''C3'', 2)]
     = [(''C3'', 2), (''C2'', 2), (''C1'', 1), (''C0'', 1)]"
  by (simp add: sort_values_desc_def unstable_sort_def enumerate_eq_zip upt_rec)

theorem goals_by_club_sums_witness:
  "goals_by_club (\<lambda>_. 0) \<lparr>columns = scenario_columns, rows = [row3, row4, row5]\<rparr>
     = [(''ClubA'', 5), (''ClubB'', 5), (''ClubC'', 5)]
   \<and> club ` set [row3, row4, row5] = {''ClubA'', ''ClubB'', ''ClubC''}
   \<and> sum_list (map goals (filter (\<lambda>r. club r = ''ClubA'') [row3, row4, row5])) = 5
   \<and> sorted (rev (map snd [(''ClubA'', 5::int), (''ClubB'', 5), (''ClubC'', 5)]))"
proof -
  have c: "club ` set [row3, row4, row5] = {''ClubA'', ''ClubB'', ''ClubC''}"
    by (auto simp: row3_def row4_def row5_def)
  have s: "sum_list (map goals (filter (\<lambda>r. club r = ''ClubA'') [row3, row4, row5])) = 5"
    by (simp add: row3_def row4_def row5_def)
  show ?thesis
    using goals_by_club_sums[of "\<lambda>_. 0"
        "\<lparr>columns = scenario_columns, rows = [row3, row4, row5]\<rparr>"]
    unfolding tied_clubs_stable using c s by simp
qed

text \<open>
  The claim as stated fails. Three clubs with 5 goals each are met in the order ClubB,
  ClubA, ClubC. \<open>groupby\<close> forms the groups in ascending order of the club's name, and
  the sort by sum leaves them in that order when it keeps ties as they come, and in the
  opposite order when it turns ties around; neither is the order in which the clubs were
  met. And a club whose goals add up to \<open>2 ^ 63 + 1\<close> is charted with a negative sum.
\<close>

theorem tied_clubs_not_in_first_met_order:
  "map club [row3, row4, row5] = [''ClubB'', ''ClubA'', ''ClubC'']
   \<and> groupSum_spec club goals [row3, row4, row5]
       = [(''ClubB'', 5), (''ClubA'', 5), (''ClubC'', 5)]
   \<and> goals_by_club (\<lambda>_. 0) \<lparr>columns = scenario_columns, rows = [row3, row4, row5]\<rparr>
       = [(''ClubA'', 5), (''ClubB'', 5), (''ClubC'', 5)]
   \<and> goals_by_club (\<lambda>i. 2 - i) \<lparr>columns = scenario_columns, rows = [row3, row4, row5]\<rparr>
       = [(''ClubC'', 5), (''ClubB'', 5), (''ClubA'', 5)]
   \<and> goals_by_club (\<lambda>_. 0) overflow_frame = [(''ClubA'', - 9223372036854775807)]
   \<and> groupSum_spec club goals (rows overflow_frame) = [(''ClubA'', 9223372036854775809)]"
proof -
  have "groupSum_spec club goals [row3, row4, row5]
       = [(''ClubB'', 5), (''ClubA'', 5), (''ClubC'', 5)]"
    by (simp add: groupSum_spec_def first_seen_def mergesort_desc_def
        row3_def row4_def row5_def)
  moreover have "goals_by_club (\<lambda>_. 0) overflow_frame = [(''ClubA'', - 9223372036854775807)]"
    by (simp add: goals_by_club_def groupby_sum_def sort_values_desc_def
        stable_when_tie_is_constant series_sum_def wrap_int64_def overflow_frame_def scorer_def)
  moreover have "groupSum_spec club goals (rows overflow_frame)
       = [(''ClubA'', 9223372036854775809)]"
    by (simp add: groupSum_spec_def first_seen_def mergesort_desc_def overflow_frame_def
        scorer_def)
  moreover have "map club [row3, row4, row5] = [''ClubB'', ''ClubA'', ''ClubC'']"
    by (simp add: row3_def row4_def row5_def)
  ultimately show ?thesis
    using tied_clubs_stable tied_clubs_reversed by simp
qed

section \<open>The orders an unstable sort can give\<close>

lemma positions_for:
  "mset out = mset (map snd ps) \<Longrightarrow> \<exists>L. map snd L = out \<and> mset L = mset ps"
proof (induction out arbitrary: ps)
  case Nil
  then show ?case by simp
next
  case (Cons x out)
  from Cons.prems have "x \<in> set (map snd ps)"
    by (metis list.set_intros(1) set_mset_mset)
  then obtain p where p: "p \<in> set ps" and x: "snd p = x" by auto
  have "mset (map snd (remove1 p ps)) = mset (map snd ps) - {#x#}"
    using p x by (simp add: image_mset_Diff)
  also have "\<dots> = mset out"
    using Cons.prems by (metis add_mset_remove_trivial mset.simps(2))
  finally obtain L where L: "map snd L = out" "mset L = mset (remove1 p ps)"
    using Cons.IH[of "remove1 p ps"] by metis
  have "map snd (p # L) = x # out \<and> mset (p # L) = mset ps"
    using L x p by simp
  then show ?case by (rule exI[of _ "p # L"])
qed

lemma filter_key_singleton:
  assumes "distinct zs" and "k \<in> set zs" and "inj_on g (set zs)"
  shows "filter (\<lambda>x. g k = g x) zs = [k]"
proof -
  have "filter (\<lambda>x. g k = g x) zs = filter (\<lambda>x. x = k) zs"
    using assms(2,3) by (intro filter_cong) (auto simp: inj_on_def)
  also have "\<dots> = [k]"
    using assms(1,2) by (induction zs) (auto simp: filter_empty_conv)
  finally show ?thesis .
qed

lemma rank_of_position:
  assumes "distinct (map fst L)" and "j < length L"
  shows "length (takeWhile (\<lambda>p. fst p \<noteq> fst (L ! j)) L) = j"
proof -
  have "takeWhile (\<lambda>p. fst p \<noteq> fst (L ! j)) L = take j L"
  proof (rule takeWhile_eq_take_P_nth)
    fix i assume "i < j" "i < length L"
    with assms show "fst (L ! i) \<noteq> fst (L ! j)"
      by (metis length_map nth_eq_iff_index_eq nth_map order_less_irrefl)
  next
    show "\<not> fst (L ! j) \<noteq> fst (L ! j)" by simp
  qed
  with assms(2) show ?thesis by simp
qed

text \<open>Every ascending order of the rows is the sort for some \<open>tie\<close>, and so is every
  descending order: the sorts are held to nothing about equal values.\<close>

lemma every_ascending_order_is_a_sort:
  assumes "mset out = mset rs" and "sorted (map f out)"
  shows "\<exists>tie. unstable_sort tie f rs = out"
proof -
  let ?E = "enumerate 0 rs"
  have "mset out = mset (map snd ?E)"
    using assms(1) by (simp only: map_snd_enumerate)
  then obtain L where L: "map snd L = out" and mL: "mset L = mset ?E"
    using positions_for by blast
  have dE: "distinct (map fst ?E)"
    by (simp add: map_fst_enumerate)
  have "mset (map fst L) = mset (map fst ?E)"
    using arg_cong[OF mL, of "image_mset fst"] by (simp only: mset_map)
  then have dL: "distinct (map fst L)"
    using dE by (metis mset_eq_imp_distinct_iff)
  define tie where "tie i = length (takeWhile (\<lambda>p. fst p \<noteq> i) L)" for i
  have key: "tie (fst (L ! j)) = j" if "j < length L" for j
    unfolding tie_def by (rule rank_of_position[OF dL that])
  have keys: "map (\<lambda>p. tie (fst p)) L = [0..<length L]"
    by (rule nth_equalityI) (simp_all add: key)
  have sorted_L: "sorted (map (\<lambda>p. tie (fst p)) L)"
    by (simp add: keys)
  have "distinct (map (\<lambda>p. tie (fst p)) L)"
    by (simp add: keys)
  then have inj: "inj_on (\<lambda>p. tie (fst p)) (set L)" and distL: "distinct L"
    by (simp_all add: distinct_map)
  have setE: "set ?E = set L"
    using mL by (metis set_mset_mset)
  have distE: "distinct ?E"
    using dE by (metis distinct_map)
  have "sort_key (\<lambda>p. tie (fst p)) ?E = L"
  proof (rule properties_for_sort_key[OF mL _ sorted_L])
    fix k assume k: "k \<in> set L"
    have "filter (\<lambda>x. tie (fst k) = tie (fst x)) L = [k]"
      by (rule filter_key_singleton[OF distL k inj])
    moreover have "filter (\<lambda>x. tie (fst k) = tie (fst x)) ?E = [k]"
      by (rule filter_key_singleton[OF distE]) (simp_all add: setE k inj)
    ultimately show "filter (\<lambda>x. tie (fst k) = tie (fst x)) L
        = filter (\<lambda>x. tie (fst k) = tie (fst x)) ?E"
      by simp
  qed
  then have "unstable_sort tie f rs = map snd (sort_key (\<lambda>p. f (snd p)) L)"
    by (simp add: unstable_sort_def)
  also have "\<dots> = sort_key f out"
    by (simp add: map_sort_key L)
  also have "\<dots> = out"
    by (rule sort_key_id_if_sorted[OF assms(2)])
  finally show ?thesis by blast
qed

lemma every_descending_order_is_a_sort:
  assumes "mset out = mset rs" and "sorted (rev (map f out))"
  shows "\<exists>tie. sort_values_desc tie f rs = out"
proof -
  have "mset (rev out) = mset (rev rs)" using assms(1) by simp
  moreover have "sorted (map f (rev out))" using assms(2) by (simp add: rev_map)
  ultimately obtain tie where "unstable_sort tie f (rev rs) = rev out"
    using every_ascending_order_is_a_sort by blast
  then have "sort_values_desc tie f rs = out"
    by (simp add: sort_values_desc_def)
  then show ?thesis by blast
qed

section \<open>What can fail\<close>

lemma shown_avg_minutes_defined: "\<exists>n. shown_avg_minutes (kpi_block fd) = Inr n"
  using kpi_block_defined[of fd] by (auto simp: shown_avg_minutes_def py_int_def)

lemma load_data_escapes:
  "load_data to_float read_csv file_path = Inl e
     \<longleftrightarrow> e \<noteq> FileNotFoundError
         \<and> (read_csv file_path = Raised e
            \<or> (\<exists>frame. read_csv file_path = Parsed frame
                        \<and> convert_columns to_float frame = Inl e))"
  by (cases "read_csv file_path")
     (auto simp: load_data_def load_body_def split: sum.splits exn.splits)

lemma has_column_labels:
  "map fst (columns a) = map fst (columns b) \<Longrightarrow> has_column name a = has_column name b"
  by (simp add: has_column_def)

lemma club_frame_labels: "map fst (columns (club_frame table c)) = map fst (columns table)"
  by (simp add: club_frame_def empty_frame_def mask_rows_def case_prod_unfold comp_def)

lemma filter_stage_result:
  "filter_stage table c = Inr fd \<Longrightarrow> fd = filter_result table c"
  by (auto simp: filter_stage_def club_stage_def position_stage_def minutes_stage_def
      filter_result_def position_frame_def club_frame_def
      split: sum.splits if_splits)

lemma filter_stage_well_formed:
  assumes "well_formed table"
  shows "filter_stage table c = Inr (filter_result table c)"
proof -
  have a: "club_stage table c = Inr (club_frame table c)"
    using assms by (simp add: club_stage_def club_frame_def well_formed_def)
  have "has_column ''Position'' (club_frame table c)"
    using assms has_column_labels[OF club_frame_labels] by (simp add: well_formed_def)
  then have b: "position_stage c (club_frame table c) = Inr (position_frame table c)"
    by (simp add: position_stage_def position_frame_def)
  have "has_column ''Minutes'' (position_frame table c)"
    using assms has_column_labels[OF position_frame_labels] by (simp add: well_formed_def)
  then have "minutes_stage c (position_frame table c) = Inr (filter_result table c)"
    by (simp add: minutes_stage_def filter_result_def)
  then show ?thesis
    by (simp add: filter_stage_def a b)
qed

lemma filter_result_columns:
  assumes "\<not> df_empty (filter_result table c)"
  shows "columns (filter_result table c) = columns table"
proof -
  have "selected_clubs c \<noteq> []"
    using assms filter_result_no_clubs[of c table] by (auto simp: df_empty_def)
  then show ?thesis
    by (simp add: filter_result_def minutes_rows_def position_frame_def club_frame_def
        mask_rows_def)
qed

lemma kpi_stage_well_formed:
  assumes "well_formed table"
  shows "kpi_stage (filter_result table c) = Inr (kpi_block (filter_result table c))"
  using assms has_column_labels[OF filter_result_labels, of _ table c]
  by (simp add: kpi_stage_def well_formed_def)

lemma goals_stage_well_formed:
  assumes "well_formed table"
  shows "goals_stage tie (filter_result table c) =
     Inr (if df_empty (filter_result table c) then None
          else Some (goals_by_club tie (filter_result table c)))"
  using assms has_column_labels[OF filter_result_labels, of _ table c]
  by (simp add: goals_stage_def well_formed_def)

lemma metric_is_numeric_column:
  assumes "distinct (map fst (columns table))" and "metric \<in> set (metrics_to_rank table)"
  shows "\<exists>t. map_of (columns table) metric = Some t \<and> t \<noteq> Object"
proof -
  from assms(2) obtain t where t: "(metric, t) \<in> set (columns table)" and n: "is_number t"
    by (auto simp: metrics_to_rank_def numeric_cols_def)
  have "map_of (columns table) metric = Some t"
    using assms(1) t by (rule map_of_is_SomeI)
  moreover have "t \<noteq> Object" using n by (auto simp: is_number_def)
  ultimately show ?thesis by blast
qed

lemma ranking_stage_well_formed:
  assumes "well_formed table" and "metric \<in> set (metrics_to_rank table)"
  shows "ranking_stage tie1 tie2 metric (filter_result table c) =
     Inr (if df_empty (filter_result table c) then None
          else Some (fig_bar_top tie1 tie2 metric (filter_result table c)))"
proof (cases "df_empty (filter_result table c)")
  case True
  then show ?thesis by (simp add: ranking_stage_def)
next
  case False
  obtain t where "map_of (columns table) metric = Some t" and "t \<noteq> Object"
    using metric_is_numeric_column[OF _ assms(2)] assms(1) by (auto simp: well_formed_def)
  then show ?thesis
    using False by (simp add: ranking_stage_def filter_result_columns[OF False])
qed

text \<open>The stages do raise on a table that is not well-formed: without the Club column the
  filter raises KeyError, and a column of dtype object cannot be ranked.\<close>

lemma missing_column_raises:
  "filter_stage clubless_table scenario_criteria = Inl KeyError"
  by (simp add: filter_stage_def club_stage_def has_column_def clubless_table_def
      scenario_criteria_def)

lemma object_column_raises:
  "ranking_stage tie1 tie2 ''Club'' scenario_table = Inl TypeError"
  by (simp add: ranking_stage_def df_empty_def scenario_table_def scenario_columns_def)

lemma scenario_well_formed: "well_formed scenario_table"
  by (simp add: well_formed_def has_column_def scenario_table_def scenario_columns_def)

text \<open>
  Claim C9, as the code has it. \<open>load_data\<close> returns \<open>None\<close>, after showing the error
  message, exactly when reading the path raises FileNotFoundError; the script then stops
  the session. Every other exception, raised by the read or by the conversion of a
  column, leaves \<open>load_data\<close> and ends the run uncaught, and these are the only ones that
  do. On a well-formed table, with every criteria, the filter raises nothing and returns
  the filtered frame; on that frame the summary figures, \<open>int(avg_minutes)\<close> on line
  117, the goals per club and the ranking by any of the metrics offered raise nothing,
  and the two charts are replaced by a warning exactly when the frame is empty.
\<close>

theorem load_failure_is_file_not_found:
  "(load_data to_float read_csv file_path = Inr (None, shown)
      \<longleftrightarrow> read_csv file_path = Raised FileNotFoundError \<and> shown = [StError file_path])
   \<and> (load_data to_float read_csv file_path = Inl e
      \<longleftrightarrow> e \<noteq> FileNotFoundError
          \<and> (read_csv file_path = Raised e
             \<or> (\<exists>frame. read_csv file_path = Parsed frame
                         \<and> convert_columns to_float frame = Inl e)))
   \<and> (startup to_float read_csv = Stopped shown
      \<longleftrightarrow> read_csv ''epl_player_stats_24_25.csv'' = Raised FileNotFoundError
          \<and> shown = [StError ''epl_player_stats_24_25.csv''])
   \<and> (startup to_float read_csv = Uncaught e
      \<longleftrightarrow> e \<noteq> FileNotFoundError
          \<and> (read_csv ''epl_player_stats_24_25.csv'' = Raised e
             \<or> (\<exists>frame. read_csv ''epl_player_stats_24_25.csv'' = Parsed frame
                         \<and> convert_columns to_float frame = Inl e)))
   \<and> (well_formed table \<longrightarrow>
        filter_stage table c = Inr (apply_filter table c)
        \<and> kpi_stage (apply_filter table c) = Inr (kpi_block (apply_filter table c))
        \<and> (\<exists>n. shown_avg_minutes (kpi_block (apply_filter table c)) = Inr n)
        \<and> goals_stage tie (apply_filter table c) =
            Inr (if df_empty (apply_filter table c) then None
                 else Some (goals_by_club tie (apply_filter table c)))
        \<and> (metric \<in> set (metrics_to_rank table) \<longrightarrow>
             ranking_stage tie1 tie2 metric (apply_filter table c) =
               Inr (if df_empty (apply_filter table c) then None
                    else Some (fig_bar_top tie1 tie2 metric (apply_filter table c)))))"
proof -
  let ?path = "''epl_player_stats_24_25.csv''"
  have s: "startup to_float read_csv = Stopped shown
      \<longleftrightarrow> load_data to_float read_csv ?path = Inr (None, shown)"
    by (auto simp: startup_def split: sum.splits option.splits prod.splits)
  have u: "startup to_float read_csv = Uncaught e
      \<longleftrightarrow> load_data to_float read_csv ?path = Inl e"
    by (auto simp: startup_def split: sum.splits option.splits prod.splits)
  have 1: "load_data to_float read_csv file_path = Inr (None, shown)
      \<longleftrightarrow> read_csv file_path = Raised FileNotFoundError \<and> shown = [StError file_path]"
    by (rule load_data_None)
  have 2: "load_data to_float read_csv file_path = Inl e
      \<longleftrightarrow> e \<noteq> FileNotFoundError
          \<and> (read_csv file_path = Raised e
             \<or> (\<exists>frame. read_csv file_path = Parsed frame
                         \<and> convert_columns to_float frame = Inl e))"
    by (rule load_data_escapes)
  have 3: "startup to_float read_csv = Stopped shown
      \<longleftrightarrow> read_csv ?path = Raised FileNotFoundError \<and> shown = [StError ?path]"
    unfolding s by (rule load_data_None)
  have 4: "startup to_float read_csv = Uncaught e
      \<longleftrightarrow> e \<noteq> FileNotFoundError
          \<and> (read_csv ?path = Raised e
             \<or> (\<exists>frame. read_csv ?path = Parsed frame
                         \<and> convert_columns to_float frame = Inl e))"
    unfolding u by (rule load_data_escapes)
  have 5: "filter_stage table c = Inr (apply_filter table c)"
      "kpi_stage (apply_filter table c) = Inr (kpi_block (apply_filter table c))"
      "goals_stage tie (apply_filter table c) =
            Inr (if df_empty (apply_filter table c) then None
                 else Some (goals_by_club tie (apply_filter table c)))"
      "metric \<in> set (metrics_to_rank table) \<Longrightarrow>
             ranking_stage tie1 tie2 metric (apply_filter table c) =
               Inr (if df_empty (apply_filter table c) then None
                    else Some (fig_bar_top tie1 tie2 metric (apply_filter table c)))"
    if "well_formed table"
    unfolding apply_filter_eq
    using that
    by (simp_all only: filter_stage_well_formed kpi_stage_well_formed goals_stage_well_formed
        ranking_stage_well_formed)
  have 6: "\<exists>n. shown_avg_minutes (kpi_block (apply_filter table c)) = Inr n"
    by (rule shown_avg_minutes_defined)
  show ?thesis
    using 1 2 3 4 5 6 by blast
qed

lemma scenario_ranking:
  "fig_bar_top tie1 tie2 ''Goals'' \<lparr>columns = scenario_columns, rows = [row1]\<rparr>
     = \<lparr>columns = scenario_columns, rows = [row1]\<rparr>"
  by (simp add: fig_bar_top_def top_10_players_def top_n_players_def df_sort_values_def
      nlargest_def sort_values_desc_def sort_values_asc_def unstable_sort_def)

lemma scenario_goals_by_club:
  "goals_by_club tie \<lparr>columns = scenario_columns, rows = [row1]\<rparr> = [(''ClubA'', 10)]"
  by (simp add: goals_by_club_def groupby_sum_def sort_values_desc_def unstable_sort_def
      series_sum_def wrap_int64_def row1_def)

theorem load_failure_is_file_not_found_witness:
  "load_data py_float (\<lambda>_. Raised FileNotFoundError) ''epl_player_stats_24_25.csv''
     = Inr (None, [StError ''epl_player_stats_24_25.csv''])
   \<and> startup py_float (\<lambda>_. Raised FileNotFoundError) = Stopped [StError ''epl_player_stats_24_25.csv'']
   \<and> well_formed scenario_table
   \<and> ''Goals'' \<in> set (metrics_to_rank scenario_table)
   \<and> filter_stage scenario_table scenario_criteria
       = Inr \<lparr>columns = scenario_columns, rows = [row1]\<rparr>
   \<and> kpi_stage \<lparr>columns = scenario_columns, rows = [row1]\<rparr>
       = Inr \<lparr>total_players = 1, total_goals = 10, avg_assists = Some 3, avg_minutes = Some 900\<rparr>
   \<and> shown_avg_minutes (kpi_block \<lparr>columns = scenario_columns, rows = [row1]\<rparr>) = Inr 900
   \<and> goals_stage (\<lambda>_. 0) \<lparr>columns = scenario_columns, rows = [row1]\<rparr>
       = Inr (Some [(''ClubA'', 10)])
   \<and> ranking_stage (\<lambda>_. 0) (\<lambda>_. 0) ''Goals'' \<lparr>columns = scenario_columns, rows = [row1]\<rparr>
       = Inr (Some \<lparr>columns = scenario_columns, rows = [row1]\<rparr>)"
proof -
  let ?fd = "\<lparr>columns = scenario_columns, rows = [row1]\<rparr>"
  have f: "apply_filter scenario_table scenario_criteria = ?fd"
    by (simp add: apply_filter_eq scenario_filter)
  have ne: "\<not> df_empty ?fd"
    by (simp add: df_empty_def scenario_columns_def)
  have m: "''Goals'' \<in> set (metrics_to_rank scenario_table)"
    by (simp add: scenario_metrics)
  have k: "shown_avg_minutes (kpi_block ?fd) = Inr 900"
    by (simp add: scenario_kpi1 shown_avg_minutes_def py_int_def)
  have l: "load_data py_float (\<lambda>_. Raised FileNotFoundError) ''epl_player_stats_24_25.csv''
     = Inr (None, [StError ''epl_player_stats_24_25.csv''])"
    by (simp add: load_data_def load_body_def)
  have st: "startup py_float (\<lambda>_. Raised FileNotFoundError)
     = Stopped [StError ''epl_player_stats_24_25.csv'']"
    by (simp add: startup_def l)
  show ?thesis
    using load_failure_is_file_not_found[of py_float "\<lambda>_. Raised FileNotFoundError"
        "''epl_player_stats_24_25.csv''" "[StError ''epl_player_stats_24_25.csv'']"
        PermissionError scenario_table scenario_criteria "\<lambda>_. 0" "''Goals''" "\<lambda>_. 0" "\<lambda>_. 0"]
      scenario_well_formed m k l st ne
    by (simp add: f scenario_kpi1 scenario_ranking scenario_goals_by_club)
qed

text \<open>
  The claim as stated fails: a file that exists and may not be read does not resolve to a
  readable file, yet reading it raises PermissionError, which \<open>load_data\<close> does not
  catch; nothing is shown and the run ends with the exception.
\<close>

theorem unreadable_file_is_not_caught:
  "\<not> resolves_to_readable_file (Raised PermissionError)
   \<and> load_data py_float (\<lambda>_. Raised PermissionError) ''epl_player_stats_24_25.csv''
       = Inl PermissionError
   \<and> startup py_float (\<lambda>_. Raised PermissionError) = Uncaught PermissionError"
  by (simp add: resolves_to_readable_file_def load_data_def load_body_def startup_def)

end
